theory Spec2Isabelle
  imports Main "HOL-Library.Word"
begin

unbundle bit_operations_syntax

section \<open>The ACG scene codec: data model, exporter, importer, validation\<close>

text \<open>
  A shallow embedding of \<^verbatim>\<open>loader/data_structures.py\<close>, \<^verbatim>\<open>loader/binary_exporter.py\<close>
  and \<^verbatim>\<open>BaseLoader.validate_scene\<close> of \<^verbatim>\<open>loader/base_loader.py\<close>.

  Conventions of the model:
  \<^item> a file is the list of its bytes; \<^verbatim>\<open>export\<close> returns the bytes it writes and
    \<^verbatim>\<open>load\<close> takes the bytes of the file it opens (errors of the file system itself
    are not modelled);
  \<^item> every Python exception is a value of \<open>error\<close>, and a function that can raise
    returns \<open>error + 'a\<close> with \<open>Inl\<close> for the exception;
  \<^item> a Python \<^verbatim>\<open>int\<close> is an \<open>int\<close>; a Python \<^verbatim>\<open>str\<close> is the list of its code points;
  \<^item> a float of the data model is a 32-bit float (section 3 of the specification); it is
    represented by its IEEE-754 binary32 bit pattern, which is what \<^verbatim>\<open>struct.pack('f', x)\<close>
    writes for it. Python doubles that are not binary32 values are outside the model;
  \<^item> \<^verbatim>\<open>struct\<close> is used in native mode; the model fixes the usual platform: little
    endian, \<^verbatim>\<open>I\<close>, \<^verbatim>\<open>i\<close> and \<^verbatim>\<open>f\<close> of 4 bytes, no padding between equal items.
\<close>

subsection \<open>Bytes, exceptions, text\<close>

type_synonym byte = "8 word"
type_synonym f32 = "32 word"
type_synonym pystr = "nat list"

text \<open>The two messages of \<^verbatim>\<open>ValueError\<close> that \<^verbatim>\<open>load\<close> builds with f-strings: the
  template and the value put into it.\<close>

datatype vmsg = Invalid_file_format "byte list" | Unsupported_version int

text \<open>\<open>StructError\<close> is \<^verbatim>\<open>struct.error\<close>; \<open>TypeError c args\<close> is the \<^verbatim>\<open>TypeError\<close> of a
  call of the constructor of class \<open>c\<close> that misses the required arguments \<open>args\<close>.\<close>

datatype error =
    ValueError vmsg
  | StructError
  | TypeError string "string list"
  | UnicodeDecodeError
  | UnicodeEncodeError

definition bindE :: "error + 'a \<Rightarrow> ('a \<Rightarrow> error + 'b) \<Rightarrow> error + 'b" where
  "bindE m f = (case m of Inl e \<Rightarrow> Inl e | Inr x \<Rightarrow> f x)"

text \<open>Statements that write to the file one after the other: the bytes are appended in
  order, and the first exception ends the run.\<close>

fun seqE :: "(error + byte list) list \<Rightarrow> error + byte list" where
  "seqE [] = Inr []"
| "seqE (Inl e # rs) = Inl e"
| "seqE (Inr b # rs) = (case seqE rs of Inl e \<Rightarrow> Inl e | Inr bs \<Rightarrow> Inr (b @ bs))"

text \<open>\<^verbatim>\<open>s.encode('utf-8')\<close>: a surrogate code point cannot be encoded. A Python string
  holds no code point above \<^verbatim>\<open>0x10FFFF\<close>; the model gives the same exception for such a
  number, so that the function is total.\<close>

definition utf8_encode_cp :: "nat \<Rightarrow> error + byte list" where
  "utf8_encode_cp c =
     (if c < 0x80 then Inr [of_nat c]
      else if c < 0x800 then Inr [of_nat (0xC0 + c div 64), of_nat (0x80 + c mod 64)]
      else if 0xD800 \<le> c \<and> c \<le> 0xDFFF then Inl UnicodeEncodeError
      else if c < 0x10000 then
        Inr [of_nat (0xE0 + c div 4096), of_nat (0x80 + (c div 64) mod 64), of_nat (0x80 + c mod 64)]
      else if c < 0x110000 then
        Inr [of_nat (0xF0 + c div 262144), of_nat (0x80 + (c div 4096) mod 64),
             of_nat (0x80 + (c div 64) mod 64), of_nat (0x80 + c mod 64)]
      else Inl UnicodeEncodeError)"

fun utf8_encode :: "pystr \<Rightarrow> error + byte list" where
  "utf8_encode [] = Inr []"
| "utf8_encode (c # cs) =
     (case utf8_encode_cp c of Inl e \<Rightarrow> Inl e
      | Inr b \<Rightarrow> (case utf8_encode cs of Inl e \<Rightarrow> Inl e | Inr bs \<Rightarrow> Inr (b @ bs)))"

text \<open>\<^verbatim>\<open>b.decode('utf-8')\<close>, strict: the length of a sequence is given by its first byte,
  the second byte of a sequence has the range that excludes overlong forms, surrogates
  and code points above \<^verbatim>\<open>0x10FFFF\<close>, the other bytes are continuation bytes.\<close>

definition utf8_len :: "nat \<Rightarrow> nat option" where
  "utf8_len b0 =
     (if b0 < 0x80 then Some 1
      else if 0xC2 \<le> b0 \<and> b0 \<le> 0xDF then Some 2
      else if 0xE0 \<le> b0 \<and> b0 \<le> 0xEF then Some 3
      else if 0xF0 \<le> b0 \<and> b0 \<le> 0xF4 then Some 4
      else None)"

definition utf8_second_ok :: "nat \<Rightarrow> nat \<Rightarrow> bool" where
  "utf8_second_ok b0 b1 =
     (if b0 = 0xE0 then 0xA0 \<le> b1 \<and> b1 \<le> 0xBF
      else if b0 = 0xED then 0x80 \<le> b1 \<and> b1 \<le> 0x9F
      else if b0 = 0xF0 then 0x90 \<le> b1 \<and> b1 \<le> 0xBF
      else if b0 = 0xF4 then 0x80 \<le> b1 \<and> b1 \<le> 0x8F
      else 0x80 \<le> b1 \<and> b1 \<le> 0xBF)"

definition utf8_cont :: "nat \<Rightarrow> bool" where
  "utf8_cont b = (0x80 \<le> b \<and> b \<le> 0xBF)"

definition utf8_seq_ok :: "nat list \<Rightarrow> bool" where
  "utf8_seq_ok bs =
     (case bs of
        [b0] \<Rightarrow> True
      | b0 # b1 # more \<Rightarrow> utf8_second_ok b0 b1 \<and> list_all utf8_cont more
      | [] \<Rightarrow> False)"

definition utf8_seq_cp :: "nat list \<Rightarrow> nat" where
  "utf8_seq_cp bs =
     (case bs of
        [b0] \<Rightarrow> b0
      | [b0, b1] \<Rightarrow> (b0 - 0xC0) * 64 + (b1 - 0x80)
      | [b0, b1, b2] \<Rightarrow> (b0 - 0xE0) * 4096 + (b1 - 0x80) * 64 + (b2 - 0x80)
      | [b0, b1, b2, b3] \<Rightarrow>
          (b0 - 0xF0) * 262144 + (b1 - 0x80) * 4096 + (b2 - 0x80) * 64 + (b3 - 0x80)
      | _ \<Rightarrow> 0)"

function utf8_decode :: "byte list \<Rightarrow> error + pystr" where
  "utf8_decode bs =
     (case bs of
        [] \<Rightarrow> Inr []
      | b0 # _ \<Rightarrow>
          (case utf8_len (unat b0) of
             None \<Rightarrow> Inl UnicodeDecodeError
           | Some n \<Rightarrow>
               if length bs < n \<or> \<not> utf8_seq_ok (map unat (take n bs))
               then Inl UnicodeDecodeError
               else (case utf8_decode (drop n bs) of
                       Inl e \<Rightarrow> Inl e
                     | Inr cs \<Rightarrow> Inr (utf8_seq_cp (map unat (take n bs)) # cs))))"
  by pat_completeness auto
termination
  by (relation "measure length") (auto simp: utf8_len_def split: if_splits)

subsection \<open>\<^verbatim>\<open>struct.pack\<close> and \<^verbatim>\<open>struct.unpack\<close>\<close>

definition le32 :: "nat \<Rightarrow> byte list" where
  "le32 n = [of_nat n, of_nat (n div 256), of_nat (n div 65536), of_nat (n div 16777216)]"

fun from_le :: "byte list \<Rightarrow> nat" where
  "from_le [] = 0"
| "from_le (b # bs) = unat b + 256 * from_le bs"

text \<open>\<^verbatim>\<open>struct.pack('I', n)\<close> and \<^verbatim>\<open>struct.pack('i', n)\<close> raise \<^verbatim>\<open>struct.error\<close> when
  \<open>n\<close> is out of the range of the format.\<close>

definition pack_I :: "int \<Rightarrow> error + byte list" where
  "pack_I n = (if 0 \<le> n \<and> n < 2 ^ 32 then Inr (le32 (nat n)) else Inl StructError)"

definition pack_i :: "int \<Rightarrow> error + byte list" where
  "pack_i n =
     (if - (2 ^ 31) \<le> n \<and> n < 2 ^ 31 then Inr (le32 (nat (n mod 2 ^ 32))) else Inl StructError)"

definition pack_f :: "f32 \<Rightarrow> byte list" where
  "pack_f x = le32 (unat x)"

text \<open>\<^verbatim>\<open>struct.pack('<k>f', *xs)\<close>, \<^verbatim>\<open>struct.pack('<k>i', *xs)\<close> and
  \<^verbatim>\<open>struct.pack('<k>I', *xs)\<close>: the number of arguments must be \<open>k\<close>.\<close>

definition pack_fs :: "nat \<Rightarrow> f32 list \<Rightarrow> error + byte list" where
  "pack_fs k xs = (if length xs = k then Inr (concat (map pack_f xs)) else Inl StructError)"

definition pack_is :: "nat \<Rightarrow> int list \<Rightarrow> error + byte list" where
  "pack_is k xs = (if length xs = k then seqE (map pack_i xs) else Inl StructError)"

definition pack_Is :: "nat \<Rightarrow> int list \<Rightarrow> error + byte list" where
  "pack_Is k xs = (if length xs = k then seqE (map pack_I xs) else Inl StructError)"

text \<open>\<^verbatim>\<open>f.read(n)\<close> on the rest of the file: at most \<open>n\<close> bytes, fewer at the end of the
  file, and the rest after them.\<close>

definition read :: "nat \<Rightarrow> byte list \<Rightarrow> byte list \<times> byte list" where
  "read n s = (take n s, drop n s)"

fun chunks4 :: "byte list \<Rightarrow> byte list list" where
  "chunks4 (a # b # c # d # rest) = [a, b, c, d] # chunks4 rest"
| "chunks4 _ = []"

text \<open>\<^verbatim>\<open>struct.unpack\<close> raises \<^verbatim>\<open>struct.error\<close> unless the buffer has exactly the size
  of the format.\<close>

definition unpack_Is :: "nat \<Rightarrow> byte list \<Rightarrow> error + int list" where
  "unpack_Is k b =
     (if length b = 4 * k then Inr (map (\<lambda>c. int (from_le c)) (chunks4 b)) else Inl StructError)"

definition unpack_I :: "byte list \<Rightarrow> error + int" where
  "unpack_I b = (if length b = 4 then Inr (int (from_le b)) else Inl StructError)"

definition signed32 :: "nat \<Rightarrow> int" where
  "signed32 n = (if n < 2 ^ 31 then int n else int n - 2 ^ 32)"

definition unpack_is :: "nat \<Rightarrow> byte list \<Rightarrow> error + int list" where
  "unpack_is k b =
     (if length b = 4 * k then Inr (map (\<lambda>c. signed32 (from_le c)) (chunks4 b))
      else Inl StructError)"

definition unpack_fs :: "nat \<Rightarrow> byte list \<Rightarrow> error + f32 list" where
  "unpack_fs k b =
     (if length b = 4 * k then Inr (map (\<lambda>c. of_nat (from_le c)) (chunks4 b))
      else Inl StructError)"

text \<open>\<open>x > 0.0\<close> on a binary32 bit pattern: the sign bit is clear, the value is not zero
  and not a NaN, that is, the pattern lies between 1 and that of plus infinity.\<close>

definition f32_gt_zero :: "f32 \<Rightarrow> bool" where
  "f32_gt_zero x = (0 < x \<and> x \<le> 0x7F800000)"

declare utf8_decode.simps [simp del]

subsection \<open>The data model of \<^verbatim>\<open>data_structures.py\<close>\<close>

record vertex =
  position :: "f32 list"
  normal :: "f32 list"
  texcoord :: "f32 list"
  tangent :: "f32 list"

record mesh =
  mesh_name :: pystr
  vertices :: "vertex list"
  indices :: "int list"
  material_index :: int

record clearcoat_layer =
  cc_strength :: f32
  cc_roughness :: f32
  cc_ior :: f32
  cc_texture_index :: int
  cc_color :: "f32 list"
  cc_padding :: f32

record transmission_layer =
  tr_strength :: f32
  tr_roughness :: f32
  tr_depth :: f32
  tr_texture_index :: int
  tr_color :: "f32 list"
  tr_padding :: f32

record sheen_layer =
  sh_strength :: f32
  sh_roughness :: f32
  sh_tint :: f32
  sh_texture_index :: int
  sh_color :: "f32 list"
  sh_padding :: f32

record subsurface_layer =
  ss_strength :: f32
  ss_radius :: f32
  ss_scale :: f32
  ss_texture_index :: int
  ss_color :: "f32 list"
  ss_padding :: f32

record anisotropy_layer =
  an_strength :: f32
  an_rotation :: f32
  an_padding0 :: f32
  an_texture_index :: int
  an_tangent :: "f32 list"
  an_padding1 :: f32

record iridescence_layer =
  ir_strength :: f32
  ir_ior :: f32
  ir_thickness :: f32
  ir_texture_index :: int
  ir_padding :: "f32 list"

record volume_layer =
  vo_density :: f32
  vo_anisotropy :: f32
  vo_padding0 :: f32
  vo_padding1 :: f32
  vo_absorption_color :: "f32 list"
  vo_padding2 :: f32

text \<open>The value of a texture slot of a material. The field is declared \<^verbatim>\<open>int\<close> with
  \<^verbatim>\<open>-1\<close> for "no texture"; the importer stores \<^verbatim>\<open>None\<close> there and the exporter accepts
  \<^verbatim>\<open>None\<close> and values that are no numbers (\<open>TexOther\<close>).\<close>

datatype tex_slot = TexNone | TexInt int | TexOther

record material =
  mat_name :: pystr
  base_color :: "f32 list"
  metallic :: f32
  emission :: "f32 list"
  roughness :: f32
  ior :: f32
  opacity :: f32
  layer_flags :: int
  extended_data_index :: int
  base_color_texture :: tex_slot
  normal_texture :: tex_slot
  metallic_roughness_texture :: tex_slot
  emission_texture :: tex_slot
  clearcoat :: "clearcoat_layer option"
  transmission :: "transmission_layer option"
  sheen :: "sheen_layer option"
  subsurface :: "subsurface_layer option"
  anisotropy :: "anisotropy_layer option"
  iridescence :: "iridescence_layer option"
  volume :: "volume_layer option"

record texture =
  path :: pystr
  width :: int
  height :: int

text \<open>An entry of \<^verbatim>\<open>SceneData.textures\<close>: the loaders store \<^verbatim>\<open>Texture\<close> objects, the
  importer stores the path strings themselves.\<close>

datatype texture_entry = TextureObj texture | PathStr pystr

record scene_data =
  meshes :: "mesh list"
  materials :: "material list"
  textures :: "texture_entry list"

text \<open>\<^verbatim>\<open>SceneData()\<close>.\<close>

definition SceneData :: scene_data where
  "SceneData = \<lparr>meshes = [], materials = [], textures = []\<rparr>"

text \<open>The binary32 patterns of the default values \<^verbatim>\<open>0.8\<close>, \<^verbatim>\<open>0.5\<close>, \<^verbatim>\<open>1.5\<close> and
  \<^verbatim>\<open>1.0\<close> of the \<^verbatim>\<open>Material\<close> dataclass.\<close>

definition f32_0_8 :: f32 where "f32_0_8 = 0x3F4CCCCD"
definition f32_0_5 :: f32 where "f32_0_5 = 0x3F000000"
definition f32_1_5 :: f32 where "f32_1_5 = 0x3FC00000"
definition f32_1_0 :: f32 where "f32_1_0 = 0x3F800000"

text \<open>The constructor of the dataclass \<^verbatim>\<open>Material\<close>: \<^verbatim>\<open>name\<close> has no default, every
  other field has one. A call without \<^verbatim>\<open>name\<close> raises \<^verbatim>\<open>TypeError\<close>.\<close>

definition Material_init :: "pystr \<Rightarrow> material" where
  "Material_init n =
     \<lparr>mat_name = n, base_color = [f32_0_8, f32_0_8, f32_0_8], metallic = 0,
      emission = [0, 0, 0], roughness = f32_0_5, ior = f32_1_5, opacity = f32_1_0,
      layer_flags = 0, extended_data_index = 0,
      base_color_texture = TexInt (- 1), normal_texture = TexInt (- 1),
      metallic_roughness_texture = TexInt (- 1), emission_texture = TexInt (- 1),
      clearcoat = None, transmission = None, sheen = None, subsurface = None,
      anisotropy = None, iridescence = None, volume = None\<rparr>"

definition Material :: "pystr option \<Rightarrow> error + material" where
  "Material name_arg =
     (case name_arg of
        None \<Rightarrow> Inl (TypeError ''Material'' [''name''])
      | Some n \<Rightarrow> Inr (Material_init n))"

text \<open>The constructor of the dataclass \<^verbatim>\<open>Mesh\<close>: \<^verbatim>\<open>name\<close>, \<^verbatim>\<open>vertices\<close> and
  \<^verbatim>\<open>indices\<close> have no default.\<close>

definition Mesh :: "pystr option \<Rightarrow> vertex list option \<Rightarrow> int list option \<Rightarrow> error + mesh" where
  "Mesh name_arg vertices_arg indices_arg =
     (case (name_arg, vertices_arg, indices_arg) of
        (Some n, Some vs, Some ix) \<Rightarrow>
          Inr \<lparr>mesh_name = n, vertices = vs, indices = ix, material_index = 0\<rparr>
      | _ \<Rightarrow>
          Inl (TypeError ''Mesh''
                 ((if name_arg = None then [''name''] else []) @
                  (if vertices_arg = None then [''vertices''] else []) @
                  (if indices_arg = None then [''indices''] else []))))"

text \<open>\<^verbatim>\<open>Material.get_layer_flags\<close>. An instance of a layer dataclass is true in a
  condition, so \<^verbatim>\<open>self.clearcoat and ...\<close> tests that the layer is not \<^verbatim>\<open>None\<close>.\<close>

definition get_layer_flags :: "material \<Rightarrow> int" where
  "get_layer_flags m =
     (let flags = 0;
          flags = (case clearcoat m of Some l \<Rightarrow>
                     if f32_gt_zero (cc_strength l) then flags OR push_bit 0 1 else flags
                   | None \<Rightarrow> flags);
          flags = (case transmission m of Some l \<Rightarrow>
                     if f32_gt_zero (tr_strength l) then flags OR push_bit 1 1 else flags
                   | None \<Rightarrow> flags);
          flags = (case sheen m of Some l \<Rightarrow>
                     if f32_gt_zero (sh_strength l) then flags OR push_bit 2 1 else flags
                   | None \<Rightarrow> flags);
          flags = (case subsurface m of Some l \<Rightarrow>
                     if f32_gt_zero (ss_strength l) then flags OR push_bit 3 1 else flags
                   | None \<Rightarrow> flags);
          flags = (case anisotropy m of Some l \<Rightarrow>
                     if f32_gt_zero (an_strength l) then flags OR push_bit 4 1 else flags
                   | None \<Rightarrow> flags);
          flags = (case iridescence m of Some l \<Rightarrow>
                     if f32_gt_zero (ir_strength l) then flags OR push_bit 5 1 else flags
                   | None \<Rightarrow> flags);
          flags = (case volume m of Some l \<Rightarrow>
                     if f32_gt_zero (vo_density l) then flags OR push_bit 6 1 else flags
                   | None \<Rightarrow> flags)
      in flags)"

subsection \<open>\<^verbatim>\<open>BinarySceneExporter\<close>\<close>

definition MAGIC :: "byte list" where
  "MAGIC = [0x41, 0x43, 0x47, 0x53]"

definition VERSION :: int where
  "VERSION = 1"

definition write_header :: "error + byte list" where
  "write_header = seqE [Inr MAGIC, pack_I VERSION]"

text \<open>A length-prefixed string: \<^verbatim>\<open>b = s.encode('utf-8')\<close>, then the length of \<open>b\<close>,
  then \<open>b\<close>.\<close>

definition write_str :: "pystr \<Rightarrow> error + byte list" where
  "write_str s =
     (case utf8_encode s of
        Inl e \<Rightarrow> Inl e
      | Inr b \<Rightarrow> seqE [pack_I (int (length b)), Inr b])"

definition to_texture_index :: "tex_slot \<Rightarrow> int" where
  "to_texture_index val =
     (case val of TexNone \<Rightarrow> - 1 | TexInt i \<Rightarrow> (if i = - 1 then - 1 else i) | TexOther \<Rightarrow> - 1)"

text \<open>The flags that \<^verbatim>\<open>_write_materials\<close> computes itself (lines 64 to 72).\<close>

definition export_flags :: "material \<Rightarrow> int" where
  "export_flags mat =
     (let flags = 0;
          flags = (if transmission mat \<noteq> None then flags OR 0x01 else flags);
          flags = (if clearcoat mat \<noteq> None then flags OR 0x02 else flags);
          flags = (if sheen mat \<noteq> None then flags OR 0x04 else flags)
      in flags)"

text \<open>The extension data written after the flags (lines 74 to 77).\<close>

definition write_extension :: "material \<Rightarrow> error + byte list" where
  "write_extension mat =
     (case transmission mat of
        None \<Rightarrow> Inr []
      | Some t \<Rightarrow> pack_fs 2 [tr_strength t, ior mat])"

definition write_material :: "material \<Rightarrow> error + byte list" where
  "write_material mat =
     seqE [write_str (mat_name mat),
           pack_fs 3 (base_color mat),
           pack_fs 3 (emission mat),
           pack_fs 1 [metallic mat],
           pack_fs 1 [roughness mat],
           pack_fs 1 [ior mat],
           pack_fs 1 [opacity mat],
           pack_is 4 [to_texture_index (base_color_texture mat),
                      to_texture_index (normal_texture mat),
                      to_texture_index (metallic_roughness_texture mat),
                      to_texture_index (emission_texture mat)],
           pack_I (export_flags mat),
           write_extension mat]"

definition write_materials :: "material list \<Rightarrow> error + byte list" where
  "write_materials ms = seqE (pack_I (int (length ms)) # map write_material ms)"

definition write_texture :: "texture_entry \<Rightarrow> error + byte list" where
  "write_texture t =
     (let tex_path = (case t of TextureObj x \<Rightarrow> path x | PathStr s \<Rightarrow> s)
      in write_str tex_path)"

definition write_textures :: "texture_entry list \<Rightarrow> error + byte list" where
  "write_textures ts = seqE (pack_I (int (length ts)) # map write_texture ts)"

definition write_vertex :: "vertex \<Rightarrow> error + byte list" where
  "write_vertex v =
     seqE [pack_fs 3 (position v), pack_fs 3 (normal v), pack_fs 2 (texcoord v),
           pack_fs 3 (tangent v)]"

text \<open>The vertex block of a mesh (the loop of lines 107 to 115) and its index block
  (line 120).\<close>

definition write_vertex_block :: "vertex list \<Rightarrow> error + byte list" where
  "write_vertex_block vs = seqE (map write_vertex vs)"

definition write_index_block :: "int list \<Rightarrow> error + byte list" where
  "write_index_block ix = pack_Is (length ix) ix"

definition write_mesh :: "mesh \<Rightarrow> error + byte list" where
  "write_mesh m =
     seqE [write_str (mesh_name m),
           pack_I (material_index m),
           pack_I (int (length (vertices m))),
           write_vertex_block (vertices m),
           pack_I (int (length (indices m))),
           write_index_block (indices m)]"

definition write_meshes :: "mesh list \<Rightarrow> error + byte list" where
  "write_meshes ms = seqE (pack_I (int (length ms)) # map write_mesh ms)"

definition export :: "scene_data \<Rightarrow> error + byte list" where
  "export scene =
     seqE [write_header,
           write_materials (materials scene),
           write_textures (textures scene),
           write_meshes (meshes scene)]"

subsection \<open>\<^verbatim>\<open>BinarySceneImporter\<close>\<close>

text \<open>The reads of the importer. Each takes the rest of the file and returns the value
  read and the rest after it, or the exception.\<close>

definition rd_I :: "byte list \<Rightarrow> error + (int \<times> byte list)" where
  "rd_I s = (let (b, s') = read 4 s in bindE (unpack_I b) (\<lambda>n. Inr (n, s')))"

definition rd_fs :: "nat \<Rightarrow> byte list \<Rightarrow> error + (f32 list \<times> byte list)" where
  "rd_fs k s = (let (b, s') = read (4 * k) s in bindE (unpack_fs k b) (\<lambda>xs. Inr (xs, s')))"

definition rd_is :: "nat \<Rightarrow> byte list \<Rightarrow> error + (int list \<times> byte list)" where
  "rd_is k s = (let (b, s') = read (4 * k) s in bindE (unpack_is k b) (\<lambda>xs. Inr (xs, s')))"

definition rd_Is :: "nat \<Rightarrow> byte list \<Rightarrow> error + (int list \<times> byte list)" where
  "rd_Is k s = (let (b, s') = read (k * 4) s in bindE (unpack_Is k b) (\<lambda>xs. Inr (xs, s')))"

text \<open>A length-prefixed string: the length, then \<^verbatim>\<open>f.read(length).decode('utf-8')\<close>.\<close>

definition rd_str :: "byte list \<Rightarrow> error + (pystr \<times> byte list)" where
  "rd_str s =
     bindE (rd_I s) (\<lambda>(len, s).
       let (b, s') = read (nat len) s in bindE (utf8_decode b) (\<lambda>str. Inr (str, s')))"

text \<open>The body of the loop of \<^verbatim>\<open>_read_materials\<close> after the construction of
  \<^verbatim>\<open>mat\<close> (lines 155 to 175). After the flags nothing more is read.\<close>

definition read_material_body :: "material \<Rightarrow> byte list \<Rightarrow> error + (material \<times> byte list)" where
  "read_material_body mat s =
     bindE (rd_str s) (\<lambda>(name, s).
     bindE (rd_fs 3 s) (\<lambda>(bc, s).
     bindE (rd_fs 3 s) (\<lambda>(em, s).
     bindE (rd_fs 1 s) (\<lambda>(me, s).
     bindE (rd_fs 1 s) (\<lambda>(ro, s).
     bindE (rd_fs 1 s) (\<lambda>(io, s).
     bindE (rd_fs 1 s) (\<lambda>(op, s).
     bindE (rd_is 4 s) (\<lambda>(tex_indices, s).
     bindE (rd_I s) (\<lambda>(flags, s).
       Inr (mat\<lparr>mat_name := name, base_color := bc, emission := em, metallic := me ! 0,
                roughness := ro ! 0, ior := io ! 0, opacity := op ! 0,
                base_color_texture :=
                  (if tex_indices ! 0 \<ge> 0 then TexInt (tex_indices ! 0) else TexNone)\<rparr>,
            s))))))))))"

fun read_materials_loop ::
  "nat \<Rightarrow> byte list \<Rightarrow> material list \<Rightarrow> error + (material list \<times> byte list)" where
  "read_materials_loop 0 s mats = Inr (mats, s)"
| "read_materials_loop (Suc n) s mats =
     bindE (Material None) (\<lambda>mat.
     bindE (read_material_body mat s) (\<lambda>(mat, s).
       read_materials_loop n s (mats @ [mat])))"

definition read_materials :: "byte list \<Rightarrow> error + (material list \<times> byte list)" where
  "read_materials s = bindE (rd_I s) (\<lambda>(count, s). read_materials_loop (nat count) s [])"

fun read_textures_loop ::
  "nat \<Rightarrow> byte list \<Rightarrow> texture_entry list \<Rightarrow> error + (texture_entry list \<times> byte list)" where
  "read_textures_loop 0 s texs = Inr (texs, s)"
| "read_textures_loop (Suc n) s texs =
     bindE (rd_str s) (\<lambda>(p, s). read_textures_loop n s (texs @ [PathStr p]))"

definition read_textures :: "byte list \<Rightarrow> error + (texture_entry list \<times> byte list)" where
  "read_textures s = bindE (rd_I s) (\<lambda>(count, s). read_textures_loop (nat count) s [])"

definition read_vertex :: "byte list \<Rightarrow> error + (vertex \<times> byte list)" where
  "read_vertex s =
     bindE (rd_fs 3 s) (\<lambda>(p, s).
     bindE (rd_fs 3 s) (\<lambda>(n, s).
     bindE (rd_fs 2 s) (\<lambda>(t, s).
     bindE (rd_fs 3 s) (\<lambda>(tg, s).
       Inr (\<lparr>position = p, normal = n, texcoord = t, tangent = tg\<rparr>, s)))))"

fun read_vertices_loop :: "nat \<Rightarrow> byte list \<Rightarrow> mesh \<Rightarrow> error + (mesh \<times> byte list)" where
  "read_vertices_loop 0 s m = Inr (m, s)"
| "read_vertices_loop (Suc n) s m =
     bindE (read_vertex s) (\<lambda>(v, s).
       read_vertices_loop n s (m\<lparr>vertices := vertices m @ [v]\<rparr>))"

text \<open>The body of the loop of \<^verbatim>\<open>_read_meshes\<close> after the construction of
  \<^verbatim>\<open>mesh\<close> (lines 199 to 225).\<close>

definition read_mesh_body :: "mesh \<Rightarrow> byte list \<Rightarrow> error + (mesh \<times> byte list)" where
  "read_mesh_body m s =
     bindE (rd_str s) (\<lambda>(name, s).
     bindE (rd_I s) (\<lambda>(mi, s).
     bindE (rd_I s) (\<lambda>(vert_count, s).
     bindE (read_vertices_loop (nat vert_count) s (m\<lparr>mesh_name := name, material_index := mi\<rparr>))
       (\<lambda>(m, s).
     bindE (rd_I s) (\<lambda>(idx_count, s).
     bindE (rd_Is (nat idx_count) s) (\<lambda>(ix, s).
       Inr (m\<lparr>indices := ix\<rparr>, s)))))))"

fun read_meshes_loop ::
  "nat \<Rightarrow> byte list \<Rightarrow> mesh list \<Rightarrow> error + (mesh list \<times> byte list)" where
  "read_meshes_loop 0 s ms = Inr (ms, s)"
| "read_meshes_loop (Suc n) s ms =
     bindE (Mesh None None None) (\<lambda>m.
     bindE (read_mesh_body m s) (\<lambda>(m, s).
       read_meshes_loop n s (ms @ [m])))"

definition read_meshes :: "byte list \<Rightarrow> error + (mesh list \<times> byte list)" where
  "read_meshes s = bindE (rd_I s) (\<lambda>(count, s). read_meshes_loop (nat count) s [])"

definition load :: "byte list \<Rightarrow> error + scene_data" where
  "load file =
     (let scene = SceneData;
          (magic, s) = read 4 file
      in if magic \<noteq> MAGIC then Inl (ValueError (Invalid_file_format magic))
         else
           bindE (rd_I s) (\<lambda>(version, s).
             if version \<noteq> VERSION then Inl (ValueError (Unsupported_version version))
             else
               bindE (read_materials s) (\<lambda>(mats, s).
               bindE (read_textures s) (\<lambda>(texs, s).
               bindE (read_meshes s) (\<lambda>(ms, s).
                 Inr (scene\<lparr>materials := mats, textures := texs, meshes := ms\<rparr>))))))"

subsection \<open>\<^verbatim>\<open>BaseLoader.validate_scene\<close>\<close>

definition pystr_of :: "string \<Rightarrow> pystr" where
  "pystr_of cs = map of_char cs"



subsection \<open>Example inputs\<close>


text \<open>A file that starts with \<^verbatim>\<open>ACGX\<close>, and a file with the right magic and the
  version 999.\<close>

definition bad_magic_file :: "byte list" where
  "bad_magic_file = [0x41, 0x43, 0x47, 0x58, 1, 0, 0, 0]"

definition version_999_file :: "byte list" where
  "version_999_file = MAGIC @ le32 999"

text \<open>A valid header, a materials count of 1, and the end of the file.\<close>

definition count_only_file :: "byte list" where
  "count_only_file = MAGIC @ le32 (nat VERSION) @ le32 1"

text \<open>The file of a scene without materials, textures and meshes.\<close>

definition empty_file :: "byte list" where
  "empty_file = MAGIC @ le32 (nat VERSION) @ le32 0 @ le32 0 @ le32 0"

text \<open>Two vertices and the bytes of their encoding; with the indices 0, 1, 0 they make
  a mesh of 2 vertices and 3 indices.\<close>

definition v_a :: vertex where
  "v_a = \<lparr>position = [0, 0, 0], normal = [0, 0, f32_1_0], texcoord = [0, 0], tangent = [0, 0, 0]\<rparr>"

definition v_b :: vertex where
  "v_b = \<lparr>position = [f32_1_0, 0, 0], normal = [0, 0, f32_1_0], texcoord = [f32_1_0, 0],
          tangent = [0, 0, 0]\<rparr>"

definition v_a_bytes :: "byte list" where
  "v_a_bytes = [0,0,0,0, 0,0,0,0, 0,0,0,0,  0,0,0,0, 0,0,0,0, 0,0,0x80,0x3F,  0,0,0,0, 0,0,0,0,
                0,0,0,0, 0,0,0,0, 0,0,0,0]"

definition v_b_bytes :: "byte list" where
  "v_b_bytes = [0,0,0x80,0x3F, 0,0,0,0, 0,0,0,0,  0,0,0,0, 0,0,0,0, 0,0,0x80,0x3F,
                0,0,0x80,0x3F, 0,0,0,0,  0,0,0,0, 0,0,0,0, 0,0,0,0]"

text \<open>A material named "glass" with a transmission layer of strength 0.5, the bytes of
  its record up to the texture indices, and its whole record. The same material with a
  transmission layer of strength 0.0, as \<^verbatim>\<open>TransmissionLayer()\<close> makes it.\<close>

definition half_transmission :: transmission_layer where
  "half_transmission = \<lparr>tr_strength = f32_0_5, tr_roughness = 0, tr_depth = 0,
     tr_texture_index = - 1, tr_color = [f32_1_0, f32_1_0, f32_1_0], tr_padding = 0\<rparr>"

definition glass :: material where
  "glass = (Material_init (pystr_of ''glass''))\<lparr>transmission := Some half_transmission\<rparr>"

definition glass_fixed :: "byte list" where
  "glass_fixed =
     le32 5 @ [0x67, 0x6C, 0x61, 0x73, 0x73] @
     pack_f f32_0_8 @ pack_f f32_0_8 @ pack_f f32_0_8 @
     pack_f 0 @ pack_f 0 @ pack_f 0 @
     pack_f 0 @ pack_f f32_0_5 @ pack_f f32_1_5 @ pack_f f32_1_0 @
     le32 (2 ^ 32 - 1) @ le32 (2 ^ 32 - 1) @ le32 (2 ^ 32 - 1) @ le32 (2 ^ 32 - 1)"

definition glass_record :: "byte list" where
  "glass_record = glass_fixed @ le32 1 @ pack_f f32_0_5 @ pack_f f32_1_5"

definition zero_transmission :: transmission_layer where
  "zero_transmission = \<lparr>tr_strength = 0, tr_roughness = 0, tr_depth = 0,
     tr_texture_index = - 1, tr_color = [f32_1_0, f32_1_0, f32_1_0], tr_padding = 0\<rparr>"

definition still_glass :: material where
  "still_glass = (Material_init (pystr_of ''glass''))\<lparr>transmission := Some zero_transmission\<rparr>"

text \<open>The scene with the material "glass" alone and its file; the material that the
  body of the loop of \<^verbatim>\<open>_read_materials\<close> makes of the record of "glass". The scene
  with the material "Default" alone and its file.\<close>

definition glass_scene :: scene_data where
  "glass_scene = \<lparr>meshes = [], materials = [glass], textures = []\<rparr>"

definition glass_file :: "byte list" where
  "glass_file = MAGIC @ le32 (nat VERSION) @ le32 1 @ glass_record @ le32 0 @ le32 0"

definition glass_as_read :: material where
  "glass_as_read = (Material_init (pystr_of ''glass''))\<lparr>base_color_texture := TexNone\<rparr>"

definition default_scene :: scene_data where
  "default_scene =
     \<lparr>meshes = [], materials = [Material_init (pystr_of ''Default'')], textures = []\<rparr>"

definition default_record :: "byte list" where
  "default_record =
     le32 7 @ [0x44, 0x65, 0x66, 0x61, 0x75, 0x6C, 0x74] @
     pack_f f32_0_8 @ pack_f f32_0_8 @ pack_f f32_0_8 @
     pack_f 0 @ pack_f 0 @ pack_f 0 @
     pack_f 0 @ pack_f f32_0_5 @ pack_f f32_1_5 @ pack_f f32_1_0 @
     le32 (2 ^ 32 - 1) @ le32 (2 ^ 32 - 1) @ le32 (2 ^ 32 - 1) @ le32 (2 ^ 32 - 1) @
     le32 0"

definition default_scene_file :: "byte list" where
  "default_scene_file = MAGIC @ le32 (nat VERSION) @ le32 1 @ default_record @ le32 0 @ le32 0"

subsection \<open>Scenes of the data model and scenes that fit the format\<close>

text \<open>The data model of section 3 of the specification, as a predicate on scenes: text
  that has a UTF-8 encoding, vectors of 3, 3, 2 and 3 floats in a vertex and of 3 floats for
  the colours of a material, indices that are unsigned 32-bit numbers in a list whose length
  is a multiple of 3, a material index that is a position in the materials, texture slots
  that are absent or a position in the textures.\<close>

definition valid_text :: "pystr \<Rightarrow> bool" where
  "valid_text s = list_all (\<lambda>c. c < 0x110000 \<and> \<not> (0xD800 \<le> c \<and> c \<le> 0xDFFF)) s"

definition vertex_conforms :: "vertex \<Rightarrow> bool" where
  "vertex_conforms v =
     (length (position v) = 3 \<and> length (normal v) = 3 \<and> length (texcoord v) = 2 \<and>
      length (tangent v) = 3)"

definition mesh_conforms :: "nat \<Rightarrow> mesh \<Rightarrow> bool" where
  "mesh_conforms num_materials m =
     (valid_text (mesh_name m) \<and> list_all vertex_conforms (vertices m) \<and>
      list_all (\<lambda>i. 0 \<le> i \<and> i < 2 ^ 32) (indices m) \<and> length (indices m) mod 3 = 0 \<and>
      0 \<le> material_index m \<and> material_index m < int num_materials)"

definition slot_conforms :: "nat \<Rightarrow> tex_slot \<Rightarrow> bool" where
  "slot_conforms num_textures t =
     (case t of TexNone \<Rightarrow> True
      | TexInt i \<Rightarrow> i = - 1 \<or> (0 \<le> i \<and> i < int num_textures)
      | TexOther \<Rightarrow> False)"

definition material_conforms :: "nat \<Rightarrow> material \<Rightarrow> bool" where
  "material_conforms num_textures m =
     (valid_text (mat_name m) \<and> length (base_color m) = 3 \<and> length (emission m) = 3 \<and>
      slot_conforms num_textures (base_color_texture m) \<and>
      slot_conforms num_textures (normal_texture m) \<and>
      slot_conforms num_textures (metallic_roughness_texture m) \<and>
      slot_conforms num_textures (emission_texture m))"

definition texture_path :: "texture_entry \<Rightarrow> pystr" where
  "texture_path t = (case t of TextureObj x \<Rightarrow> path x | PathStr s \<Rightarrow> s)"

definition scene_conforms :: "scene_data \<Rightarrow> bool" where
  "scene_conforms sc =
     (list_all (mesh_conforms (length (materials sc))) (meshes sc) \<and>
      list_all (material_conforms (length (textures sc))) (materials sc) \<and>
      list_all (\<lambda>t. valid_text (texture_path t)) (textures sc))"

text \<open>What the fields of the format can hold: an unsigned 32-bit count for the byte length
  of a string and for the length of a list, a signed 32-bit number for a texture slot.\<close>

definition str_fits :: "pystr \<Rightarrow> bool" where
  "str_fits s = (case utf8_encode s of Inl e \<Rightarrow> False | Inr b \<Rightarrow> length b < 2 ^ 32)"

definition slot_fits :: "tex_slot \<Rightarrow> bool" where
  "slot_fits t = (case t of TexInt i \<Rightarrow> i < 2 ^ 31 | _ \<Rightarrow> True)"

definition scene_fits :: "scene_data \<Rightarrow> bool" where
  "scene_fits sc =
     (length (materials sc) < 2 ^ 32 \<and> length (textures sc) < 2 ^ 32 \<and>
      length (meshes sc) < 2 ^ 32 \<and>
      list_all (\<lambda>m. str_fits (mat_name m) \<and> slot_fits (base_color_texture m) \<and>
                    slot_fits (normal_texture m) \<and> slot_fits (metallic_roughness_texture m) \<and>
                    slot_fits (emission_texture m)) (materials sc) \<and>
      list_all (\<lambda>t. str_fits (texture_path t)) (textures sc) \<and>
      list_all (\<lambda>m. str_fits (mesh_name m) \<and> length (vertices m) < 2 ^ 32 \<and>
                    length (indices m) < 2 ^ 32) (meshes sc))"

text \<open>A scene whose one material has a name of \<open>2 ^ 32\<close> letters "a", and a scene with a
  mesh, a material and a texture.\<close>

definition huge_len :: nat where
  "huge_len = 2 ^ 32"

definition huge_scene :: scene_data where
  "huge_scene =
     \<lparr>meshes = [], materials = [Material_init (replicate huge_len 0x61)], textures = []\<rparr>"

definition tri_scene :: scene_data where
  "tri_scene =
     \<lparr>meshes = [\<lparr>mesh_name = pystr_of ''tri'', vertices = [v_a, v_b, v_a], indices = [0, 1, 2],
                 material_index = 0\<rparr>],
      materials = [glass\<lparr>base_color_texture := TexInt 0\<rparr>],
      textures = [PathStr (pystr_of ''a.png'')]\<rparr>"

text \<open>A mesh of 2 vertices and 3 indices, its record, and the scene of this mesh and the
  material "Default" with its file.\<close>

definition two_vertex_mesh :: mesh where
  "two_vertex_mesh =
     \<lparr>mesh_name = pystr_of ''tri'', vertices = [v_a, v_b], indices = [0, 1, 0],
      material_index = 0\<rparr>"

definition two_vertex_mesh_record :: "byte list" where
  "two_vertex_mesh_record =
     le32 3 @ [0x74, 0x72, 0x69] @ le32 0 @
     le32 2 @ v_a_bytes @ v_b_bytes @
     le32 3 @ [0,0,0,0, 1,0,0,0, 0,0,0,0]"

definition two_vertex_scene :: scene_data where
  "two_vertex_scene =
     \<lparr>meshes = [two_vertex_mesh], materials = [Material_init (pystr_of ''Default'')],
      textures = []\<rparr>"

definition two_vertex_scene_file :: "byte list" where
  "two_vertex_scene_file =
     MAGIC @ le32 (nat VERSION) @ le32 1 @ default_record @ le32 0 @
     le32 1 @ two_vertex_mesh_record"

section \<open>Properties\<close>

subsection \<open>Four bytes, little endian\<close>

lemma length_le32 [simp]: "length (le32 n) = 4"
  by (simp add: le32_def)

lemma div_65536: "(n::nat) div 65536 = n div 256 div 256"
  by (simp add: div_mult2_eq [symmetric])

lemma div_16777216: "(n::nat) div 16777216 = n div 256 div 256 div 256"
  by (simp add: div_mult2_eq [symmetric])

lemma le32_nested:
  "le32 n = [of_nat n, of_nat (n div 256), of_nat (n div 256 div 256),
             of_nat (n div 256 div 256 div 256)]"
  by (simp only: le32_def div_65536 div_16777216)

lemma unat_byte_less: "unat (b :: byte) < 256"
  using unsigned_less [of b, where ?'a = nat] by simp

lemma unat_byte_of_nat: "unat (of_nat k :: byte) = k mod 256"
  by (simp add: unat_of_nat take_bit_eq_mod)

lemma byte_of_nat_step: "(of_nat (unat (a :: byte) + 256 * k) :: byte) = a"
proof -
  have "unat (of_nat (unat a + 256 * k) :: byte) = (unat a + 256 * k) mod 256"
    by (rule unat_byte_of_nat)
  also have "\<dots> = unat a"
    by (simp add: unat_byte_less)
  finally show ?thesis
    by (simp only: word_unat_eq_iff)
qed

lemma div_256_step: "(unat (a :: byte) + 256 * k) div 256 = k"
  by (simp add: unat_byte_less)

lemma from_le_le32: "n < 2 ^ 32 \<Longrightarrow> from_le (le32 n) = n"
proof -
  assume n: "n < 2 ^ 32"
  define q1 where "q1 = n div 256"
  define q2 where "q2 = q1 div 256"
  define q3 where "q3 = q2 div 256"
  have "q3 < 256"
    using n unfolding q3_def q2_def q1_def
    by (simp add: div_mult2_eq [symmetric] less_mult_imp_div_less)
  then have q3: "q3 mod 256 = q3"
    by simp
  have e0: "n = n mod 256 + 256 * q1" and e1: "q1 = q1 mod 256 + 256 * q2"
    and e2: "q2 = q2 mod 256 + 256 * q3"
    unfolding q1_def q2_def q3_def by simp_all
  have "from_le (le32 n) = n mod 256 + 256 * (q1 mod 256 + 256 * (q2 mod 256 + 256 * (q3 mod 256)))"
    by (simp add: le32_nested unat_byte_of_nat q1_def q2_def q3_def)
  also have "\<dots> = n"
    using e0 e1 e2 q3 by presburger
  finally show ?thesis .
qed

lemma le32_from_le: "length b = 4 \<Longrightarrow> le32 (from_le b) = b"
proof -
  assume "length b = 4"
  then obtain a0 a1 a2 a3 where b: "b = [a0, a1, a2, a3]"
    by (auto simp: length_Suc_conv numeral_eq_Suc)
  show ?thesis
    unfolding b le32_nested from_le.simps
    by (simp only: byte_of_nat_step div_256_step)
qed

lemma rd_I_le32: "n < 2 ^ 32 \<Longrightarrow> rd_I (le32 n @ rest) = Inr (int n, rest)"
  by (simp add: rd_I_def read_def unpack_I_def bindE_def from_le_le32)

subsection \<open>The importer stops at the first record\<close>

lemma Material_None: "Material None = Inl (TypeError ''Material'' [''name''])"
  by (simp add: Material_def)

lemma Mesh_None:
  "Mesh None None None = Inl (TypeError ''Mesh'' [''name'', ''vertices'', ''indices''])"
  by (simp add: Mesh_def)

lemma read_materials_loop_pos:
  "0 < n \<Longrightarrow> read_materials_loop n s acc = Inl (TypeError ''Material'' [''name''])"
  by (cases n) (simp_all add: Material_None bindE_def)

lemma read_meshes_loop_pos:
  "0 < n \<Longrightarrow>
     read_meshes_loop n s acc = Inl (TypeError ''Mesh'' [''name'', ''vertices'', ''indices''])"
  by (cases n) (simp_all add: Mesh_None bindE_def)

lemma MAGIC_read: "read 4 (MAGIC @ rest) = (MAGIC, rest)"
  by (simp add: read_def MAGIC_def)

lemma load_header:
  "load (MAGIC @ le32 (nat VERSION) @ rest) =
     bindE (read_materials rest) (\<lambda>(mats, s).
     bindE (read_textures s) (\<lambda>(texs, s).
     bindE (read_meshes s) (\<lambda>(ms, s).
       Inr (SceneData\<lparr>materials := mats, textures := texs, meshes := ms\<rparr>))))"
proof -
  have "rd_I (le32 (nat VERSION) @ rest) = Inr (VERSION, rest)"
    using rd_I_le32 [of "nat VERSION" rest] by (simp add: VERSION_def)
  then show ?thesis
    by (simp add: load_def MAGIC_read bindE_def)
qed

lemma load_material_count:
  "1 \<le> n \<Longrightarrow> n < 2 ^ 32 \<Longrightarrow>
     load (MAGIC @ le32 (nat VERSION) @ le32 n @ rest) = Inl (TypeError ''Material'' [''name''])"
  by (simp add: load_header read_materials_def rd_I_le32 read_materials_loop_pos bindE_def)

lemma load_mesh_count:
  "1 \<le> n \<Longrightarrow> n < 2 ^ 32 \<Longrightarrow>
     load (MAGIC @ le32 (nat VERSION) @ le32 0 @ le32 0 @ le32 n @ rest)
       = Inl (TypeError ''Mesh'' [''name'', ''vertices'', ''indices''])"
  by (simp add: load_header read_materials_def read_textures_def read_meshes_def rd_I_le32
        read_meshes_loop_pos bindE_def)

subsection \<open>Magic and version\<close>

text \<open>
  Claim C5. A file whose first four bytes are not \<^verbatim>\<open>ACGS\<close> (a shorter file included) is
  refused with the \<^verbatim>\<open>ValueError\<close> "Invalid file format"; a file with the right magic
  and a version field that is not 1 is refused with the \<^verbatim>\<open>ValueError\<close> "Unsupported
  version", and no scene is returned. The two exceptions are different values: both are
  \<^verbatim>\<open>ValueError\<close>, told apart by their message.
\<close>

theorem load_rejects_magic_and_version:
  "(take 4 file \<noteq> MAGIC \<longrightarrow> load file = Inl (ValueError (Invalid_file_format (take 4 file))))
   \<and> (take 4 file = MAGIC \<and> 8 \<le> length file \<and>
        int (from_le (take 4 (drop 4 file))) \<noteq> VERSION \<longrightarrow>
        load file =
          Inl (ValueError (Unsupported_version (int (from_le (take 4 (drop 4 file)))))))
   \<and> ValueError (Invalid_file_format m) \<noteq> ValueError (Unsupported_version v)"
  by (auto simp: load_def read_def rd_I_def unpack_I_def bindE_def min_def)

theorem load_rejects_magic_and_version_witness:
  "load bad_magic_file = Inl (ValueError (Invalid_file_format [0x41, 0x43, 0x47, 0x58]))
   \<and> load version_999_file = Inl (ValueError (Unsupported_version 999))"
proof -
  have v: "from_le (le32 999) = 999"
    by (rule from_le_le32) simp
  have h1: "take 4 bad_magic_file \<noteq> MAGIC"
    by (simp add: bad_magic_file_def MAGIC_def)
  have h2: "take 4 version_999_file = MAGIC \<and> 8 \<le> length version_999_file \<and>
      int (from_le (take 4 (drop 4 version_999_file))) \<noteq> VERSION"
    by (simp add: version_999_file_def MAGIC_def v VERSION_def)
  show ?thesis
    using load_rejects_magic_and_version [of bad_magic_file] h1
      load_rejects_magic_and_version [of version_999_file] h2
    by (simp add: bad_magic_file_def version_999_file_def MAGIC_def v)
qed

subsection \<open>Validation\<close>




lemma rd_I_Inr:
  assumes "rd_I s = Inr (n, s')"
  shows "s = le32 (nat n) @ s'"
proof -
  from assms have len: "length (take 4 s) = 4" and n: "n = int (from_le (take 4 s))"
    and s': "s' = drop 4 s"
    by (auto simp: rd_I_def read_def unpack_I_def bindE_def split: if_splits)
  have "le32 (nat n) = take 4 s"
    using le32_from_le [OF len] by (simp add: n)
  then show ?thesis
    by (simp add: s')
qed

lemma rd_str_Inr: "rd_str s = Inr (p, s') \<Longrightarrow> \<exists>pre. s = pre @ s'"
proof -
  assume a: "rd_str s = Inr (p, s')"
  then obtain len s1 where r: "rd_I s = Inr (len, s1)" and s': "s' = drop (nat len) s1"
    by (auto simp: rd_str_def read_def bindE_def split: sum.splits)
  have "s = le32 (nat len) @ s1"
    by (rule rd_I_Inr [OF r])
  then have "s = (le32 (nat len) @ take (nat len) s1) @ s'"
    by (simp add: s')
  then show ?thesis
    by blast
qed

lemma read_textures_loop_Inr:
  "read_textures_loop n s acc = Inr (texs, s') \<Longrightarrow> \<exists>pre. s = pre @ s'"
proof (induction n arbitrary: s acc)
  case 0
  then show ?case by simp
next
  case (Suc n)
  from Suc.prems obtain p s1 where r: "rd_str s = Inr (p, s1)"
    and l: "read_textures_loop n s1 (acc @ [PathStr p]) = Inr (texs, s')"
    by (auto simp: bindE_def split: sum.splits)
  from rd_str_Inr [OF r] obtain pre1 where "s = pre1 @ s1" ..
  moreover from Suc.IH [OF l] obtain pre2 where "s1 = pre2 @ s'" ..
  ultimately have "s = (pre1 @ pre2) @ s'"
    by simp
  then show ?case
    by blast
qed

lemma read_materials_Inr:
  assumes "read_materials s = Inr (mats, s')"
  shows "mats = [] \<and> s = le32 0 @ s'"
proof -
  from assms obtain c s1 where r: "rd_I s = Inr (c, s1)"
    and l: "read_materials_loop (nat c) s1 [] = Inr (mats, s')"
    by (auto simp: read_materials_def bindE_def split: sum.splits)
  have z: "nat c = 0"
    using l read_materials_loop_pos [of "nat c" s1 "[]"] by (cases "nat c") auto
  with l have "mats = []" "s' = s1"
    by simp_all
  with rd_I_Inr [OF r] z show ?thesis
    by simp
qed

lemma read_meshes_Inr:
  assumes "read_meshes s = Inr (ms, s')"
  shows "ms = [] \<and> s = le32 0 @ s'"
proof -
  from assms obtain c s1 where r: "rd_I s = Inr (c, s1)"
    and l: "read_meshes_loop (nat c) s1 [] = Inr (ms, s')"
    by (auto simp: read_meshes_def bindE_def split: sum.splits)
  have z: "nat c = 0"
    using l read_meshes_loop_pos [of "nat c" s1 "[]"] by (cases "nat c") auto
  with l have "ms = []" "s' = s1"
    by simp_all
  with rd_I_Inr [OF r] z show ?thesis
    by simp
qed

lemma read_textures_Inr:
  assumes "read_textures s = Inr (texs, s')"
  shows "\<exists>pre. s = pre @ s'"
proof -
  from assms obtain c s1 where r: "rd_I s = Inr (c, s1)"
    and l: "read_textures_loop (nat c) s1 [] = Inr (texs, s')"
    by (auto simp: read_textures_def bindE_def split: sum.splits)
  from read_textures_loop_Inr [OF l] obtain pre where "s1 = pre @ s'" ..
  with rd_I_Inr [OF r] have "s = (le32 (nat c) @ pre) @ s'"
    by simp
  then show ?thesis
    by blast
qed

lemma load_Inr:
  assumes "load file = Inr sc"
  shows "materials sc = [] \<and> meshes sc = [] \<and>
         (\<exists>tex rest. file = MAGIC @ le32 (nat VERSION) @ le32 0 @ tex @ le32 0 @ rest)"
proof -
  from assms have m: "take 4 file = MAGIC"
    by (auto simp: load_def read_def split: if_splits)
  from assms m obtain s1 mats s2 texs s3 ms s4 where v: "rd_I (drop 4 file) = Inr (VERSION, s1)"
    and a: "read_materials s1 = Inr (mats, s2)"
    and b: "read_textures s2 = Inr (texs, s3)"
    and c: "read_meshes s3 = Inr (ms, s4)"
    and sc: "sc = SceneData\<lparr>materials := mats, textures := texs, meshes := ms\<rparr>"
    by (auto simp: load_def read_def bindE_def split: sum.splits if_splits)
  from read_textures_Inr [OF b] obtain tex where t: "s2 = tex @ s3" ..
  have "file = take 4 file @ drop 4 file"
    by simp
  also have "\<dots> = MAGIC @ le32 (nat VERSION) @ s1"
    using rd_I_Inr [OF v] m by simp
  also have "\<dots> = MAGIC @ le32 (nat VERSION) @ le32 0 @ tex @ le32 0 @ s4"
    using read_materials_Inr [OF a] read_meshes_Inr [OF c] t by simp
  finally have "\<exists>tex rest. file = MAGIC @ le32 (nat VERSION) @ le32 0 @ tex @ le32 0 @ rest"
    by blast
  moreover have "materials sc = []" "meshes sc = []"
    using read_materials_Inr [OF a] read_meshes_Inr [OF c] by (simp_all add: sc)
  ultimately show ?thesis
    by blast
qed

lemma rd_I_le32_end: "n < 2 ^ 32 \<Longrightarrow> rd_I (le32 n) = Inr (int n, [])"
  using rd_I_le32 [of n "[]"] by simp

lemma load_empty_file: "load empty_file = Inr SceneData"
  by (simp add: empty_file_def load_header read_materials_def read_textures_def read_meshes_def
      rd_I_le32 rd_I_le32_end bindE_def SceneData_def)

text \<open>
  Claim C10. The importer returns a scene only for files whose materials count and meshes
  count are both zero. With a materials count of at least 1, and with no materials, no
  textures and a meshes count of at least 1, \<^verbatim>\<open>load\<close> raises the \<^verbatim>\<open>TypeError\<close> of
  \<^verbatim>\<open>Material()\<close> or \<^verbatim>\<open>Mesh()\<close>, whatever follows the count: no field of the record
  is read.
\<close>

theorem load_only_without_records:
  "(1 \<le> n \<and> n < 2 ^ 32 \<longrightarrow>
      load (MAGIC @ le32 (nat VERSION) @ le32 n @ rest) = Inl (TypeError ''Material'' [''name'']))
   \<and> (1 \<le> n \<and> n < 2 ^ 32 \<longrightarrow>
      load (MAGIC @ le32 (nat VERSION) @ le32 0 @ le32 0 @ le32 n @ rest)
        = Inl (TypeError ''Mesh'' [''name'', ''vertices'', ''indices'']))
   \<and> (load file = Inr sc \<longrightarrow>
        materials sc = [] \<and> meshes sc = [] \<and>
        (\<exists>tex rest. file = MAGIC @ le32 (nat VERSION) @ le32 0 @ tex @ le32 0 @ rest))"
  using load_material_count [of n rest] load_mesh_count [of n rest] load_Inr [of "file" sc]
  by blast

theorem load_only_without_records_witness:
  "load (MAGIC @ le32 (nat VERSION) @ le32 2 @ [7, 7, 7]) = Inl (TypeError ''Material'' [''name''])
   \<and> load (MAGIC @ le32 (nat VERSION) @ le32 0 @ le32 0 @ le32 2 @ [7, 7, 7])
        = Inl (TypeError ''Mesh'' [''name'', ''vertices'', ''indices''])
   \<and> load empty_file = Inr SceneData
   \<and> materials SceneData = [] \<and> meshes SceneData = []"
  using load_only_without_records [of 2 "[7, 7, 7]" empty_file SceneData] load_empty_file
  by simp

text \<open>
  Claim C6. On a valid header followed by a materials count of 1 and the end of the file,
  \<^verbatim>\<open>load\<close> raises the \<^verbatim>\<open>TypeError\<close> of the call \<^verbatim>\<open>Material()\<close>, not the
  \<^verbatim>\<open>struct.error\<close> of a read at the end of the file.
\<close>

theorem load_count_only_file:
  "load count_only_file = Inl (TypeError ''Material'' [''name''])"
  using load_material_count [of 1 "[]"] by (simp add: count_only_file_def)

subsection \<open>Sizes of the encoded blocks\<close>

lemma seqE_map_Inr: "seqE (map Inr bss) = Inr (concat bss)"
  by (induction bss) simp_all

lemma seqE_Cons_Inr:
  "seqE (r # rs) = Inr bs \<longleftrightarrow> (\<exists>b bs'. r = Inr b \<and> seqE rs = Inr bs' \<and> bs = b @ bs')"
  by (cases r) (auto split: sum.splits)

lemma length_pack_f [simp]: "length (pack_f x) = 4"
  by (simp add: pack_f_def)

lemma length_concat_pack_f: "length (concat (map pack_f xs)) = 4 * length xs"
  by (induction xs) simp_all

lemma pack_fs_Inr: "pack_fs k xs = Inr b \<Longrightarrow> length xs = k \<and> b = concat (map pack_f xs)"
  by (auto simp: pack_fs_def split: if_splits)

lemma write_vertex_Inr:
  assumes "write_vertex v = Inr b"
  shows "length (position v) = 3 \<and> length (normal v) = 3 \<and> length (texcoord v) = 2 \<and>
         length (tangent v) = 3 \<and>
         b = concat (map pack_f (position v @ normal v @ texcoord v @ tangent v))"
proof -
  from assms obtain b1 b2 b3 b4 where p: "pack_fs 3 (position v) = Inr b1"
    "pack_fs 3 (normal v) = Inr b2" "pack_fs 2 (texcoord v) = Inr b3"
    "pack_fs 3 (tangent v) = Inr b4" and b: "b = b1 @ b2 @ b3 @ b4"
    by (auto simp: write_vertex_def seqE_Cons_Inr)
  show ?thesis
    using p [THEN pack_fs_Inr] by (simp add: b)
qed

lemma length_write_vertex: "write_vertex v = Inr b \<Longrightarrow> length b = 44"
  by (drule write_vertex_Inr) (simp add: length_concat_pack_f del: map_append)

lemma length_seqE_const:
  "seqE rs = Inr bs \<Longrightarrow> (\<And>r b. r \<in> set rs \<Longrightarrow> r = Inr b \<Longrightarrow> length b = k) \<Longrightarrow>
     length bs = k * length rs"
proof (induction rs arbitrary: bs)
  case Nil
  then show ?case by simp
next
  case (Cons r rs)
  from Cons.prems(1) obtain b bs' where r: "r = Inr b" and t: "seqE rs = Inr bs'"
    and bs: "bs = b @ bs'"
    by (auto simp: seqE_Cons_Inr)
  have "length b = k"
    using Cons.prems(2) [of r b] r by simp
  moreover have "length bs' = k * length rs"
    using Cons.IH [OF t] Cons.prems(2) by simp
  ultimately show ?case
    by (simp add: bs)
qed

lemma length_write_vertex_block:
  "write_vertex_block vs = Inr b \<Longrightarrow> length b = 44 * length vs"
  unfolding write_vertex_block_def
  by (drule length_seqE_const [where k = 44]) (auto dest: length_write_vertex [OF sym])

lemma length_pack_I: "pack_I n = Inr b \<Longrightarrow> length b = 4"
  by (auto simp: pack_I_def split: if_splits)

lemma length_write_index_block:
  "write_index_block ix = Inr b \<Longrightarrow> length b = 4 * length ix"
  unfolding write_index_block_def pack_Is_def
  by (simp, drule length_seqE_const [where k = 4]) (auto dest: length_pack_I [OF sym])

lemma pack_f_0: "pack_f 0 = [0, 0, 0, 0]"
  by (simp add: pack_f_def le32_def)

lemma pack_f_1_0: "pack_f f32_1_0 = [0, 0, 0x80, 0x3F]"
  by (simp add: pack_f_def le32_def f32_1_0_def)


lemma write_vertex_v_a: "write_vertex v_a = Inr v_a_bytes"
  by (simp add: write_vertex_def v_a_def pack_fs_def pack_f_0 pack_f_1_0 v_a_bytes_def)

lemma write_vertex_v_b: "write_vertex v_b = Inr v_b_bytes"
  by (simp add: write_vertex_def v_b_def pack_fs_def pack_f_0 pack_f_1_0 v_b_bytes_def)

subsection \<open>Layer flags and the extension block\<close>

lemma utf8_glass: "utf8_encode (pystr_of ''glass'') = Inr [0x67, 0x6C, 0x61, 0x73, 0x73]"
  by (simp add: pystr_of_def utf8_encode_cp_def)

lemma write_material_glass: "write_material glass = Inr glass_record"
  by (simp add: write_material_def write_str_def utf8_glass glass_def Material_init_def
      pack_fs_def pack_is_def pack_i_def pack_I_def export_flags_def to_texture_index_def
      write_extension_def half_transmission_def glass_record_def glass_fixed_def)

lemma write_material_still_glass:
  "write_material still_glass = Inr (glass_fixed @ le32 1 @ pack_f 0 @ pack_f f32_1_5)"
  by (simp add: write_material_def write_str_def utf8_glass still_glass_def Material_init_def
      pack_fs_def pack_is_def pack_i_def pack_I_def export_flags_def to_texture_index_def
      write_extension_def zero_transmission_def glass_fixed_def)

text \<open>The bits of the two flag computations: \<^verbatim>\<open>get_layer_flags\<close> sets bit 0 to 6 for
  clearcoat, transmission, sheen, subsurface, anisotropy, iridescence and volume, each when
  the layer is present with a strength (density for volume) above zero; the exporter sets
  bit 0, 1 and 2 for transmission, clearcoat and sheen, each when the layer is present.\<close>

lemma bit_if_push_bit:
  "bit (if c then push_bit k 1 else (0::int)) i \<longleftrightarrow> c \<and> i = k"
  by (auto simp: bit_exp_iff)

lemma layer_case_flag:
  "(case layer of Some l \<Rightarrow> if P l then x OR push_bit k 1 else x | None \<Rightarrow> x)
     = x OR (if \<exists>l. layer = Some l \<and> P l then push_bit k 1 else (0::int))"
  by (simp split: option.splits)

lemma get_layer_flags_bit:
  "bit (get_layer_flags m) i \<longleftrightarrow>
     (i = 0 \<and> (\<exists>l. clearcoat m = Some l \<and> f32_gt_zero (cc_strength l))) \<or>
     (i = 1 \<and> (\<exists>l. transmission m = Some l \<and> f32_gt_zero (tr_strength l))) \<or>
     (i = 2 \<and> (\<exists>l. sheen m = Some l \<and> f32_gt_zero (sh_strength l))) \<or>
     (i = 3 \<and> (\<exists>l. subsurface m = Some l \<and> f32_gt_zero (ss_strength l))) \<or>
     (i = 4 \<and> (\<exists>l. anisotropy m = Some l \<and> f32_gt_zero (an_strength l))) \<or>
     (i = 5 \<and> (\<exists>l. iridescence m = Some l \<and> f32_gt_zero (ir_strength l))) \<or>
     (i = 6 \<and> (\<exists>l. volume m = Some l \<and> f32_gt_zero (vo_density l)))"
  unfolding get_layer_flags_def Let_def layer_case_flag bit_or_iff bit_if_push_bit
  by (simp only: bit_0_eq simp_thms) blast

lemma export_flags_bit:
  "bit (export_flags m) i \<longleftrightarrow>
     (i = 0 \<and> transmission m \<noteq> None) \<or> (i = 1 \<and> clearcoat m \<noteq> None) \<or>
     (i = 2 \<and> sheen m \<noteq> None)"
proof -
  have e: "export_flags m =
      (if transmission m \<noteq> None then push_bit 0 1 else 0) OR
      (if clearcoat m \<noteq> None then push_bit 1 1 else 0) OR
      (if sheen m \<noteq> None then push_bit 2 1 else 0)"
    by (simp add: export_flags_def)
  show ?thesis
    unfolding e bit_or_iff bit_if_push_bit by blast
qed


text \<open>
  Claim C2. For the material "glass", whose transmission layer has strength 0.5,
  \<^verbatim>\<open>_write_materials\<close> writes the flags value 1 into the record: bit 1 is clear. It does
  not call \<^verbatim>\<open>get_layer_flags\<close>, which returns 2 for this material, with bit 1 set.
\<close>

theorem export_flags_glass:
  "write_material glass = Inr (glass_fixed @ le32 1 @ pack_f f32_0_5 @ pack_f f32_1_5)
   \<and> export_flags glass = 1 \<and> \<not> bit (export_flags glass) 1
   \<and> get_layer_flags glass = 2 \<and> bit (get_layer_flags glass) 1"
proof -
  have e: "export_flags glass = 1"
    by (simp add: export_flags_def glass_def Material_init_def)
  have g: "get_layer_flags glass = 2"
    by (simp add: get_layer_flags_def glass_def Material_init_def half_transmission_def
        f32_gt_zero_def f32_0_5_def)
  show ?thesis
    using write_material_glass by (simp add: e g glass_record_def)
qed

text \<open>
  Claim C4. The material "glass" with a transmission layer of strength 0.0 has no active
  transmission layer: \<^verbatim>\<open>get_layer_flags\<close> gives 0 for it. \<^verbatim>\<open>_write_materials\<close> tests
  only that the layer is there: it writes the flags value 1 and, after the flags, the 8
  bytes of an extension block.
\<close>

theorem extension_of_inactive_transmission:
  "transmission still_glass = Some zero_transmission
   \<and> \<not> f32_gt_zero (tr_strength zero_transmission)
   \<and> get_layer_flags still_glass = 0
   \<and> export_flags still_glass = 1
   \<and> write_extension still_glass = Inr (pack_f 0 @ pack_f f32_1_5)
   \<and> length (pack_f 0 @ pack_f f32_1_5) = 8
   \<and> write_material still_glass = Inr (glass_fixed @ le32 1 @ pack_f 0 @ pack_f f32_1_5)"
proof -
  have g: "get_layer_flags still_glass = 0"
    by (simp add: get_layer_flags_def still_glass_def Material_init_def zero_transmission_def
        f32_gt_zero_def)
  have e: "export_flags still_glass = 1"
    by (simp add: export_flags_def still_glass_def Material_init_def)
  show ?thesis
    using write_material_still_glass g e
    by (simp add: still_glass_def zero_transmission_def f32_gt_zero_def write_extension_def
        pack_fs_def Material_init_def)
qed

lemma write_str_Inr:
  "write_str s = Inr b \<Longrightarrow> \<exists>nb. utf8_encode s = Inr nb \<and> length b = 4 + length nb"
  by (auto simp: write_str_def seqE_Cons_Inr dest!: length_pack_I split: sum.splits)

lemma pack_is_Inr: "pack_is k xs = Inr b \<Longrightarrow> length b = 4 * k"
proof -
  assume a: "pack_is k xs = Inr b"
  then have k: "length xs = k" and s: "seqE (map pack_i xs) = Inr b"
    by (auto simp: pack_is_def split: if_splits)
  have "length b = 4 * length (map pack_i xs)"
    by (rule length_seqE_const [OF s]) (auto simp: pack_i_def split: if_splits)
  then show ?thesis
    by (simp add: k)
qed

lemma pack_I_Inr: "pack_I n = Inr b \<Longrightarrow> b = le32 (nat n)"
  by (auto simp: pack_I_def split: if_splits)

lemma write_extension_Inr:
  "write_extension mat = Inr e \<Longrightarrow>
     e = (case transmission mat of None \<Rightarrow> []
          | Some t \<Rightarrow> pack_f (tr_strength t) @ pack_f (ior mat))"
  by (auto simp: write_extension_def pack_fs_def split: option.splits)

text \<open>The end of a material record that is written: the flags and, right after them,
  nothing when the transmission layer is absent, and the strength of the transmission layer
  followed by the \<^verbatim>\<open>ior\<close> of the material when it is present. Before the flags come the
  name with its length and the 56 bytes of the base fields.\<close>

lemma write_material_extension:
  assumes "write_material mat = Inr b"
  shows "\<exists>pre nb. utf8_encode (mat_name mat) = Inr nb \<and> length pre = 4 + length nb + 56 \<and>
           b = pre @ le32 (nat (export_flags mat)) @
               (case transmission mat of None \<Rightarrow> []
                | Some t \<Rightarrow> pack_f (tr_strength t) @ pack_f (ior mat))"
proof -
  from assms obtain b0 b1 b2 b3 b4 b5 b6 b7 b8 b9 where
    p: "write_str (mat_name mat) = Inr b0" "pack_fs 3 (base_color mat) = Inr b1"
      "pack_fs 3 (emission mat) = Inr b2" "pack_fs 1 [metallic mat] = Inr b3"
      "pack_fs 1 [roughness mat] = Inr b4" "pack_fs 1 [ior mat] = Inr b5"
      "pack_fs 1 [opacity mat] = Inr b6"
    and t: "pack_is 4 [to_texture_index (base_color_texture mat),
              to_texture_index (normal_texture mat),
              to_texture_index (metallic_roughness_texture mat),
              to_texture_index (emission_texture mat)] = Inr b7"
    and f: "pack_I (export_flags mat) = Inr b8"
    and e: "write_extension mat = Inr b9"
    and b: "b = b0 @ b1 @ b2 @ b3 @ b4 @ b5 @ b6 @ b7 @ b8 @ b9"
    by (auto simp: write_material_def seqE_Cons_Inr)
  from write_str_Inr [OF p(1)] obtain nb where nb: "utf8_encode (mat_name mat) = Inr nb"
    and l0: "length b0 = 4 + length nb"
    by blast
  define pre where "pre = b0 @ b1 @ b2 @ b3 @ b4 @ b5 @ b6 @ b7"
  have "length pre = 4 + length nb + 56"
    using p(2-7) [THEN pack_fs_Inr] pack_is_Inr [OF t] l0
    by (simp add: pre_def length_concat_pack_f)
  moreover have "b = pre @ le32 (nat (export_flags mat)) @
      (case transmission mat of None \<Rightarrow> [] | Some t \<Rightarrow> pack_f (tr_strength t) @ pack_f (ior mat))"
    using pack_I_Inr [OF f] write_extension_Inr [OF e] by (simp add: b pre_def)
  ultimately show ?thesis
    using nb by blast
qed


subsection \<open>Export followed by load\<close>

lemma write_header_eq: "write_header = Inr (MAGIC @ le32 (nat VERSION))"
  by (simp add: write_header_def pack_I_def VERSION_def)

lemma export_glass_scene: "export glass_scene = Inr glass_file"
  by (simp add: export_def write_header_eq write_materials_def write_textures_def
      write_meshes_def write_material_glass glass_scene_def glass_file_def pack_I_def)

lemma utf8_Default:
  "utf8_encode (pystr_of ''Default'') = Inr [0x44, 0x65, 0x66, 0x61, 0x75, 0x6C, 0x74]"
  by (simp add: pystr_of_def utf8_encode_cp_def)

lemma write_material_Default:
  "write_material (Material_init (pystr_of ''Default'')) = Inr default_record"
  by (simp add: write_material_def write_str_def utf8_Default Material_init_def
      pack_fs_def pack_is_def pack_i_def pack_I_def export_flags_def to_texture_index_def
      write_extension_def default_record_def)

lemma export_default_scene: "export default_scene = Inr default_scene_file"
  by (simp add: export_def write_header_eq write_materials_def write_textures_def
      write_meshes_def write_material_Default default_scene_def default_scene_file_def pack_I_def)

text \<open>
  Claim C1. The scene with the one material "Default" (no mesh, no texture) is exported to
  a file on which \<^verbatim>\<open>load\<close> raises the \<^verbatim>\<open>TypeError\<close> of \<^verbatim>\<open>Material()\<close>: the scene
  does not come back.
\<close>

theorem load_export_default_scene:
  "export default_scene = Inr default_scene_file
   \<and> load default_scene_file = Inl (TypeError ''Material'' [''name''])"
  using export_default_scene load_material_count [of 1 "default_record @ le32 0 @ le32 0"]
  by (simp add: default_scene_file_def)

lemma f32_of_unat: "(of_nat (from_le (pack_f x)) :: f32) = x"
proof -
  have "unat x < 2 ^ 32"
    using unsigned_less [of x, where ?'a = nat] by simp
  then show ?thesis
    by (simp add: pack_f_def from_le_le32)
qed

lemma chunks4_pack_f: "chunks4 (pack_f x @ rest) = pack_f x # chunks4 rest"
  by (simp add: pack_f_def le32_def)

lemma chunks4_le32: "chunks4 (le32 n @ rest) = le32 n # chunks4 rest"
  by (simp add: le32_def)

lemma rd_fs_1: "rd_fs (Suc 0) (pack_f a @ rest) = Inr ([a], rest)"
  using chunks4_pack_f [of a "[]"]
  by (simp add: rd_fs_def read_def unpack_fs_def bindE_def f32_of_unat)

lemma rd_fs_3:
  "rd_fs 3 (pack_f a @ pack_f b @ pack_f c @ rest) = Inr ([a, b, c], rest)"
  using chunks4_pack_f [of c "[]"]
  by (simp add: rd_fs_def read_def unpack_fs_def bindE_def f32_of_unat chunks4_pack_f)

lemma signed32_minus1: "signed32 (from_le (le32 4294967295)) = - 1"
  by (simp add: from_le_le32 signed32_def)

lemma rd_is_4_minus1:
  "rd_is 4 (le32 4294967295 @ le32 4294967295 @ le32 4294967295 @ le32 4294967295 @ rest)
     = Inr ([- 1, - 1, - 1, - 1], rest)"
  using chunks4_le32 [of 4294967295 "[]"]
  by (simp add: rd_is_def read_def unpack_is_def bindE_def chunks4_le32 signed32_minus1)

lemma utf8_decode_ascii: "\<forall>b \<in> set bs. b < 0x80 \<Longrightarrow> utf8_decode bs = Inr (map unat bs)"
proof (induction bs)
  case Nil
  then show ?case
    by (subst utf8_decode.simps) simp
next
  case (Cons b bs)
  then have "b < 0x80"
    by simp
  then have "unat b < 0x80"
    by (simp add: word_less_nat_alt)
  then show ?case
    using Cons by (subst utf8_decode.simps) (simp add: utf8_len_def utf8_seq_ok_def utf8_seq_cp_def)
qed

lemma rd_str_glass:
  "rd_str (le32 5 @ 0x67 # 0x6C # 0x61 # 0x73 # 0x73 # rest) = Inr (pystr_of ''glass'', rest)"
proof -
  have "utf8_decode [0x67, 0x6C, 0x61, 0x73, 0x73] = Inr (pystr_of ''glass'')"
    by (subst utf8_decode_ascii) (simp_all add: pystr_of_def)
  then show ?thesis
    by (simp add: rd_str_def rd_I_le32 read_def bindE_def)
qed

lemma read_material_body_glass_record:
  "read_material_body (Material_init []) (glass_record @ le32 0 @ le32 0)
       = Inr (glass_as_read, pack_f f32_0_5 @ pack_f f32_1_5 @ le32 0 @ le32 0)"
  by (simp add: read_material_body_def glass_record_def glass_fixed_def rd_str_glass rd_fs_3
        rd_fs_1 rd_is_4_minus1 rd_I_le32 bindE_def glass_as_read_def Material_init_def)

text \<open>The body of the loop of \<^verbatim>\<open>_read_materials\<close> takes the 64 bytes of the fixed
  fields and the bytes of the name, whatever the flags are.\<close>

lemma rd_I_drop: "rd_I s = Inr (n, s') \<Longrightarrow> s' = drop 4 s"
  by (auto simp: rd_I_def read_def bindE_def split: sum.splits)

lemma rd_fs_drop: "rd_fs k s = Inr (xs, s') \<Longrightarrow> s' = drop (4 * k) s"
  by (auto simp: rd_fs_def read_def bindE_def split: sum.splits)

lemma rd_is_drop: "rd_is k s = Inr (xs, s') \<Longrightarrow> s' = drop (4 * k) s"
  by (auto simp: rd_is_def read_def bindE_def split: sum.splits)

lemma rd_str_drop:
  "rd_str s = Inr (p, s') \<Longrightarrow> \<exists>len. rd_I s = Inr (len, drop 4 s) \<and> s' = drop (4 + nat len) s"
  by (auto simp: rd_str_def read_def bindE_def add.commute split: sum.splits dest: rd_I_drop)

lemma read_material_body_consumes:
  assumes "read_material_body m s = Inr (m', s')"
  shows "\<exists>len. rd_I s = Inr (len, drop 4 s) \<and> s' = drop (64 + nat len) s"
proof -
  from assms obtain name s1 bc s2 em s3 me s4 ro s5 io s6 op s7 tx s8 fl where
    r: "rd_str s = Inr (name, s1)" "rd_fs 3 s1 = Inr (bc, s2)" "rd_fs 3 s2 = Inr (em, s3)"
      "rd_fs 1 s3 = Inr (me, s4)" "rd_fs 1 s4 = Inr (ro, s5)" "rd_fs 1 s5 = Inr (io, s6)"
      "rd_fs 1 s6 = Inr (op, s7)" "rd_is 4 s7 = Inr (tx, s8)" "rd_I s8 = Inr (fl, s')"
    by (auto simp: read_material_body_def bindE_def split: sum.splits)
  from rd_str_drop [OF r(1)] obtain len where l: "rd_I s = Inr (len, drop 4 s)"
    and s1: "s1 = drop (4 + nat len) s"
    by blast
  have "s' = drop (64 + nat len) s"
    using r(2-7) [THEN rd_fs_drop] rd_is_drop [OF r(8)] rd_I_drop [OF r(9)]
    by (simp add: s1 add.commute)
  with l show ?thesis
    by blast
qed

text \<open>
  Claim C3. The file of the scene with the material "glass" has the transmission flag set
  in the record and the 8 bytes of the extension block after it. \<^verbatim>\<open>load\<close> raises the
  \<^verbatim>\<open>TypeError\<close> of \<^verbatim>\<open>Material()\<close> before it reads the record. The body of the loop,
  run on the record with a material at hand, stops after the flags: the rest of the file
  then starts with the extension block, not with the textures count.
\<close>

theorem read_material_body_glass:
  "export glass_scene = Inr glass_file
   \<and> load glass_file = Inl (TypeError ''Material'' [''name''])
   \<and> read_material_body (Material_init []) (glass_record @ le32 0 @ le32 0)
       = Inr (glass_as_read, pack_f f32_0_5 @ pack_f f32_1_5 @ le32 0 @ le32 0)"
  using read_material_body_glass_record export_glass_scene
    load_material_count [of 1 "glass_record @ le32 0 @ le32 0"]
  by (simp add: glass_file_def)

subsection \<open>When the export succeeds\<close>

lemma seqE_ok: "list_all (\<lambda>r. \<exists>b. r = Inr b) rs \<Longrightarrow> \<exists>bs. seqE rs = Inr bs"
  by (induction rs) auto

lemma pack_I_ok: "0 \<le> n \<Longrightarrow> n < 2 ^ 32 \<Longrightarrow> \<exists>b. pack_I n = Inr b"
  by (simp add: pack_I_def)

lemma write_str_ok: "str_fits s \<Longrightarrow> \<exists>b. write_str s = Inr b"
  by (auto simp: str_fits_def write_str_def pack_I_def split: sum.splits)

lemma pack_fs_ok: "length xs = k \<Longrightarrow> \<exists>b. pack_fs k xs = Inr b"
  by (simp add: pack_fs_def)

lemma to_texture_index_range:
  "slot_conforms n t \<Longrightarrow> slot_fits t \<Longrightarrow>
     - (2 ^ 31) \<le> to_texture_index t \<and> to_texture_index t < 2 ^ 31"
  by (cases t) (auto simp: slot_conforms_def slot_fits_def to_texture_index_def)

lemma pack_i_ok: "- (2 ^ 31) \<le> n \<and> n < 2 ^ 31 \<Longrightarrow> \<exists>b. pack_i n = Inr b"
  by (simp add: pack_i_def)

lemma write_material_ok:
  assumes "material_conforms n m" and "str_fits (mat_name m)"
    and "slot_fits (base_color_texture m)" and "slot_fits (normal_texture m)"
    and "slot_fits (metallic_roughness_texture m)" and "slot_fits (emission_texture m)"
  shows "\<exists>b. write_material m = Inr b"
proof -
  have t: "\<exists>b. pack_is 4 [to_texture_index (base_color_texture m),
              to_texture_index (normal_texture m),
              to_texture_index (metallic_roughness_texture m),
              to_texture_index (emission_texture m)] = Inr b"
    unfolding pack_is_def using assms
    by (auto intro!: seqE_ok pack_i_ok to_texture_index_range [of n]
        simp: material_conforms_def)
  have f: "\<exists>b. pack_I (export_flags m) = Inr b"
    by (rule pack_I_ok) (auto simp: export_flags_def Let_def)
  have e: "\<exists>b. write_extension m = Inr b"
    by (auto simp: write_extension_def pack_fs_def split: option.splits)
  show ?thesis
    unfolding write_material_def using assms(1) write_str_ok [OF assms(2)] t f e
    by (auto intro!: seqE_ok pack_fs_ok simp: material_conforms_def)
qed

lemma seqE_map_ok: "(\<And>x. x \<in> set xs \<Longrightarrow> \<exists>b. f x = Inr b) \<Longrightarrow> \<exists>bs. seqE (map f xs) = Inr bs"
  by (rule seqE_ok) (simp add: list_all_iff)

lemma seqE_count_map_ok:
  "length xs < 2 ^ 32 \<Longrightarrow> (\<And>x. x \<in> set xs \<Longrightarrow> \<exists>b. f x = Inr b) \<Longrightarrow>
     \<exists>bs. seqE (pack_I (int (length xs)) # map f xs) = Inr bs"
  by (rule seqE_ok) (auto simp: list_all_iff pack_I_def)

lemma write_vertex_ok: "vertex_conforms v \<Longrightarrow> \<exists>b. write_vertex v = Inr b"
  unfolding write_vertex_def
  by (auto intro!: seqE_ok pack_fs_ok simp: vertex_conforms_def)

lemma write_mesh_ok:
  assumes "mesh_conforms n m" and "n < 2 ^ 32" and "str_fits (mesh_name m)"
    and "length (vertices m) < 2 ^ 32" and "length (indices m) < 2 ^ 32"
  shows "\<exists>b. write_mesh m = Inr b"
proof -
  have v: "\<exists>b. write_vertex_block (vertices m) = Inr b"
    unfolding write_vertex_block_def using assms(1)
    by (auto intro!: seqE_map_ok write_vertex_ok simp: mesh_conforms_def list_all_iff)
  have i: "\<exists>b. write_index_block (indices m) = Inr b"
    unfolding write_index_block_def pack_Is_def using assms(1)
    by (auto intro!: seqE_map_ok pack_I_ok simp: mesh_conforms_def list_all_iff)
  have mi: "\<exists>b. pack_I (material_index m) = Inr b"
    using assms(1,2) by (intro pack_I_ok) (auto simp: mesh_conforms_def)
  have c: "\<exists>b. pack_I (int (length (vertices m))) = Inr b"
    "\<exists>b. pack_I (int (length (indices m))) = Inr b"
    using assms(4,5) by (auto intro!: pack_I_ok)
  show ?thesis
    unfolding write_mesh_def using write_str_ok [OF assms(3)] v i mi c
    by (auto intro!: seqE_ok)
qed

lemma export_ok:
  assumes "scene_conforms sc" and "scene_fits sc"
  shows "\<exists>b. export sc = Inr b"
proof -
  have h: "\<exists>b. write_header = Inr b"
    by (simp add: write_header_eq)
  have m: "\<exists>b. write_materials (materials sc) = Inr b"
    unfolding write_materials_def using assms
    by (intro seqE_count_map_ok write_material_ok [of "length (textures sc)"])
       (auto simp: scene_conforms_def scene_fits_def list_all_iff)
  have t: "\<exists>b. write_textures (textures sc) = Inr b"
    unfolding write_textures_def using assms
    by (intro seqE_count_map_ok)
       (auto simp: scene_fits_def list_all_iff write_texture_def texture_path_def
          intro: write_str_ok)
  have g: "\<exists>b. write_meshes (meshes sc) = Inr b"
    unfolding write_meshes_def using assms
    by (intro seqE_count_map_ok write_mesh_ok [of "length (materials sc)"])
       (auto simp: scene_conforms_def scene_fits_def list_all_iff)
  show ?thesis
    unfolding export_def using h m t g by (auto intro!: seqE_ok)
qed


lemma seqE_map_Inr_D:
  "seqE (map f xs) = Inr bs \<Longrightarrow> x \<in> set xs \<Longrightarrow> \<exists>b. f x = Inr b"
  by (induction xs arbitrary: bs) (auto simp: seqE_Cons_Inr)

lemma pack_I_Inr_range: "pack_I n = Inr b \<Longrightarrow> 0 \<le> n \<and> n < 2 ^ 32"
  by (auto simp: pack_I_def split: if_splits)

lemma seqE_count_map_Inr_D:
  assumes "seqE (pack_I (int (length xs)) # map f xs) = Inr bs"
  shows "length xs < 2 ^ 32 \<and> (\<forall>x \<in> set xs. \<exists>b. f x = Inr b)"
proof -
  from assms obtain b bs' where p: "pack_I (int (length xs)) = Inr b"
    and m: "seqE (map f xs) = Inr bs'"
    by (auto simp: seqE_Cons_Inr)
  from pack_I_Inr_range [OF p] have "length xs < 2 ^ 32"
    by simp
  with seqE_map_Inr_D [OF m] show ?thesis
    by blast
qed

lemma write_str_fits: "write_str s = Inr b \<Longrightarrow> str_fits s"
  by (auto simp: write_str_def str_fits_def seqE_Cons_Inr dest!: pack_I_Inr_range
      split: sum.splits)

lemma pack_i_slot_fits: "pack_i (to_texture_index t) = Inr b \<Longrightarrow> slot_fits t"
  by (cases t) (auto simp: pack_i_def to_texture_index_def slot_fits_def split: if_splits)

lemma write_material_fits:
  assumes "write_material m = Inr b"
  shows "str_fits (mat_name m) \<and> slot_fits (base_color_texture m) \<and>
         slot_fits (normal_texture m) \<and> slot_fits (metallic_roughness_texture m) \<and>
         slot_fits (emission_texture m)"
proof -
  from assms obtain b0 b7 where n: "write_str (mat_name m) = Inr b0"
    and t: "pack_is 4 [to_texture_index (base_color_texture m),
              to_texture_index (normal_texture m),
              to_texture_index (metallic_roughness_texture m),
              to_texture_index (emission_texture m)] = Inr b7"
    by (auto simp: write_material_def seqE_Cons_Inr)
  from t show ?thesis
    using write_str_fits [OF n]
    by (auto simp: pack_is_def seqE_Cons_Inr dest: pack_i_slot_fits)
qed

lemma write_mesh_fits:
  assumes "write_mesh m = Inr b"
  shows "str_fits (mesh_name m) \<and> length (vertices m) < 2 ^ 32 \<and> length (indices m) < 2 ^ 32"
proof -
  from assms obtain b0 b2 b4 where n: "write_str (mesh_name m) = Inr b0"
    and v: "pack_I (int (length (vertices m))) = Inr b2"
    and i: "pack_I (int (length (indices m))) = Inr b4"
    by (auto simp: write_mesh_def seqE_Cons_Inr)
  show ?thesis
    using write_str_fits [OF n] pack_I_Inr_range [OF v] pack_I_Inr_range [OF i] by simp
qed

lemma export_fits:
  assumes "export sc = Inr b"
  shows "scene_fits sc"
proof -
  from assms obtain bm bt bg where m: "write_materials (materials sc) = Inr bm"
    and t: "write_textures (textures sc) = Inr bt"
    and g: "write_meshes (meshes sc) = Inr bg"
    by (auto simp: export_def seqE_Cons_Inr)
  have "length (materials sc) < 2 ^ 32"
    and "\<forall>x \<in> set (materials sc). \<exists>b. write_material x = Inr b"
    using seqE_count_map_Inr_D [OF m [unfolded write_materials_def]] by blast+
  moreover have "length (textures sc) < 2 ^ 32"
    and "\<forall>x \<in> set (textures sc). \<exists>b. write_texture x = Inr b"
    using seqE_count_map_Inr_D [OF t [unfolded write_textures_def]] by blast+
  moreover have "length (meshes sc) < 2 ^ 32"
    and "\<forall>x \<in> set (meshes sc). \<exists>b. write_mesh x = Inr b"
    using seqE_count_map_Inr_D [OF g [unfolded write_meshes_def]] by blast+
  ultimately show ?thesis
    unfolding scene_fits_def list_all_iff
    by (auto dest!: write_material_fits write_mesh_fits
        simp: write_texture_def texture_path_def dest: write_str_fits)
qed

text \<open>
  Claim C7, amended. For a scene of the data model of section 3, \<^verbatim>\<open>export\<close> succeeds
  exactly when the scene fits the format: the UTF-8 encoding of every name and path is
  shorter than \<open>2 ^ 32\<close> bytes, the lists of materials, textures and meshes and the lists of
  vertices and indices of every mesh have fewer than \<open>2 ^ 32\<close> elements, and every texture
  slot is below \<open>2 ^ 31\<close>. The export is a function of the scene: two exports of the same
  scene give the same bytes, or the same exception.
\<close>

theorem export_total_within_format:
  "(scene_conforms sc \<longrightarrow> ((\<exists>b. export sc = Inr b) \<longleftrightarrow> scene_fits sc))
   \<and> (export sc = r \<and> export sc = r' \<longrightarrow> r = r')"
  using export_ok [of sc] export_fits [of sc] by auto

lemma utf8_encode_replicate_a: "utf8_encode (replicate n 0x61) = Inr (replicate n 0x61)"
  by (induction n) (simp_all add: utf8_encode_cp_def)

lemma write_str_huge: "write_str (replicate huge_len 0x61) = Inl StructError"
  by (simp add: write_str_def utf8_encode_replicate_a pack_I_def huge_len_def)

text \<open>
  Claim C7, as stated, fails: a scene of the data model whose material has a name of
  \<open>2 ^ 32\<close> letters is refused by \<^verbatim>\<open>struct.pack('I', len(name_bytes))\<close> with
  \<^verbatim>\<open>struct.error\<close>.
\<close>

theorem export_rejects_huge_name:
  "scene_conforms huge_scene \<and> export huge_scene = Inl StructError"
proof -
  have "write_material (Material_init (replicate huge_len 0x61)) = Inl StructError"
    by (simp add: write_material_def Material_init_def write_str_huge)
  then have "export huge_scene = Inl StructError"
    by (simp add: export_def write_header_eq write_materials_def huge_scene_def pack_I_def)
  moreover have "scene_conforms huge_scene"
    by (simp add: scene_conforms_def huge_scene_def material_conforms_def Material_init_def
        valid_text_def slot_conforms_def list_all_iff)
  ultimately show ?thesis
    by simp
qed

lemma str_fits_examples:
  "str_fits (pystr_of ''tri'')" "str_fits (pystr_of ''glass'')" "str_fits (pystr_of ''a.png'')"
  by (simp_all add: str_fits_def pystr_of_def utf8_encode_cp_def)

theorem export_total_within_format_witness:
  "scene_conforms tri_scene \<and> scene_fits tri_scene \<and> (\<exists>b. export tri_scene = Inr b)"
proof -
  have c: "scene_conforms tri_scene"
    by (simp add: scene_conforms_def tri_scene_def mesh_conforms_def material_conforms_def
        vertex_conforms_def v_a_def v_b_def glass_def Material_init_def valid_text_def
        pystr_of_def slot_conforms_def texture_path_def)
  have f: "scene_fits tri_scene"
    by (simp add: scene_fits_def tri_scene_def str_fits_examples glass_def Material_init_def
        slot_fits_def texture_path_def)
  show ?thesis
    using export_total_within_format [of tri_scene] c f by simp
qed

subsection \<open>The record of a mesh\<close>

lemma seqE_map_Inr_concat:
  "seqE (map f xs) = Inr bs \<Longrightarrow> (\<And>x b. x \<in> set xs \<Longrightarrow> f x = Inr b \<Longrightarrow> b = g x) \<Longrightarrow>
     bs = concat (map g xs)"
proof (induction xs arbitrary: bs)
  case Nil
  then show ?case by simp
next
  case (Cons x xs)
  from Cons.prems(1) obtain b bs' where x: "f x = Inr b" and t: "seqE (map f xs) = Inr bs'"
    and bs: "bs = b @ bs'"
    by (auto simp: seqE_Cons_Inr)
  have "b = g x"
    using Cons.prems(2) [of x b] x by simp
  moreover have "bs' = concat (map g xs)"
    using Cons.IH [OF t] Cons.prems(2) by simp
  ultimately show ?case
    by (simp add: bs)
qed

lemma seqE_map_Inr_records:
  "seqE (map f xs) = Inr bs \<Longrightarrow>
     \<exists>recs. bs = concat recs \<and> list_all2 (\<lambda>x r. f x = Inr r) xs recs"
proof (induction xs arbitrary: bs)
  case Nil
  then show ?case by simp
next
  case (Cons x xs)
  from Cons.prems obtain b bs' where x: "f x = Inr b" and t: "seqE (map f xs) = Inr bs'"
    and bs: "bs = b @ bs'"
    by (auto simp: seqE_Cons_Inr)
  from Cons.IH [OF t] obtain recs where "bs' = concat recs"
    "list_all2 (\<lambda>x r. f x = Inr r) xs recs"
    by blast
  then have "bs = concat (b # recs) \<and> list_all2 (\<lambda>x r. f x = Inr r) (x # xs) (b # recs)"
    by (simp add: bs x)
  then show ?case
    by blast
qed

lemma write_vertex_block_Inr:
  assumes "write_vertex_block vs = Inr vb"
  shows "list_all vertex_conforms vs \<and>
         vb = concat (map (\<lambda>v. concat (map pack_f
                (position v @ normal v @ texcoord v @ tangent v))) vs)"
proof -
  from assms have s: "seqE (map write_vertex vs) = Inr vb"
    by (simp add: write_vertex_block_def)
  have "list_all vertex_conforms vs"
    unfolding list_all_iff vertex_conforms_def
    using seqE_map_Inr_D [OF s] write_vertex_Inr by blast
  moreover have "vb = concat (map (\<lambda>v. concat (map pack_f
                (position v @ normal v @ texcoord v @ tangent v))) vs)"
    by (rule seqE_map_Inr_concat [OF s]) (drule write_vertex_Inr, blast)
  ultimately show ?thesis
    by simp
qed

lemma write_index_block_Inr:
  assumes "write_index_block ix = Inr ib"
  shows "ib = concat (map (\<lambda>i. le32 (nat i)) ix)"
proof -
  from assms have s: "seqE (map pack_I ix) = Inr ib"
    by (simp add: write_index_block_def pack_Is_def)
  show ?thesis
    by (rule seqE_map_Inr_concat [OF s]) (simp add: pack_I_Inr)
qed

lemma write_mesh_Inr:
  assumes "write_mesh m = Inr r"
  shows "\<exists>nb vb ib. write_str (mesh_name m) = Inr nb \<and>
           write_vertex_block (vertices m) = Inr vb \<and>
           write_index_block (indices m) = Inr ib \<and>
           r = nb @ le32 (nat (material_index m)) @
               le32 (length (vertices m)) @ vb @ le32 (length (indices m)) @ ib"
proof -
  from assms obtain nb b1 b2 vb b4 ib where n: "write_str (mesh_name m) = Inr nb"
    and p: "pack_I (material_index m) = Inr b1" "pack_I (int (length (vertices m))) = Inr b2"
      "pack_I (int (length (indices m))) = Inr b4"
    and v: "write_vertex_block (vertices m) = Inr vb"
    and i: "write_index_block (indices m) = Inr ib"
    and r: "r = nb @ b1 @ b2 @ vb @ b4 @ ib"
    by (auto simp: write_mesh_def seqE_Cons_Inr)
  show ?thesis
    using n v i p [THEN pack_I_Inr] by (simp add: r)
qed

lemma export_Inr_meshes:
  assumes "export sc = Inr f"
  shows "\<exists>pre recs. f = pre @ le32 (length (meshes sc)) @ concat recs \<and>
           list_all2 (\<lambda>m r. write_mesh m = Inr r) (meshes sc) recs"
proof -
  from assms obtain bh bm bt bg where g: "write_meshes (meshes sc) = Inr bg"
    and f: "f = bh @ bm @ bt @ bg"
    by (auto simp: export_def seqE_Cons_Inr)
  from g obtain c bs where c: "pack_I (int (length (meshes sc))) = Inr c"
    and s: "seqE (map write_mesh (meshes sc)) = Inr bs" and bg: "bg = c @ bs"
    by (auto simp: write_meshes_def seqE_Cons_Inr)
  from seqE_map_Inr_records [OF s] obtain recs where "bs = concat recs"
    "list_all2 (\<lambda>m r. write_mesh m = Inr r) (meshes sc) recs"
    by blast
  then have "f = (bh @ bm @ bt) @ le32 (length (meshes sc)) @ concat recs \<and>
      list_all2 (\<lambda>m r. write_mesh m = Inr r) (meshes sc) recs"
    using pack_I_Inr [OF c] by (simp add: f bg)
  then show ?thesis
    by blast
qed

text \<open>
  Claim C9. An encoded vertex is the 3 floats of the position, the 3 of the normal, the 2
  of the texture coordinate and the 3 of the tangent, each of 4 bytes, one after the other:
  44 bytes. The record that \<^verbatim>\<open>_write_meshes\<close> writes for a mesh is the name with its
  length, the material index, the number of vertices, the vertex block, the number of
  indices and the index block; the vertex block is the encoded vertices one after the other,
  44 bytes each, and the index block the indices, 4 bytes each. A mesh of 2 vertices and 3
  indices has a vertex block of 88 bytes and an index block of 12 bytes. An exported file
  ends with the number of meshes and the records of the meshes.
\<close>

theorem vertex_and_index_sizes:
  "(write_vertex v = Inr b \<longrightarrow>
      length b = 44 \<and> length (position v) = 3 \<and> length (normal v) = 3 \<and>
      length (texcoord v) = 2 \<and> length (tangent v) = 3 \<and>
      b = concat (map pack_f (position v @ normal v @ texcoord v @ tangent v)))
   \<and> (write_vertex_block vs = Inr vb \<longrightarrow> length vb = 44 * length vs)
   \<and> (write_index_block ix = Inr ib \<longrightarrow> length ib = 4 * length ix)
   \<and> (length vs = 2 \<and> length ix = 3 \<and> write_vertex_block vs = Inr vb \<and>
       write_index_block ix = Inr ib \<longrightarrow> length vb = 88 \<and> length ib = 12)
   \<and> (write_mesh m = Inr r \<longrightarrow>
        (\<exists>nb vbm ibm.
           write_str (mesh_name m) = Inr nb \<and>
           r = nb @ le32 (nat (material_index m)) @
               le32 (length (vertices m)) @ vbm @ le32 (length (indices m)) @ ibm \<and>
           vbm = concat (map (\<lambda>v. concat (map pack_f
                   (position v @ normal v @ texcoord v @ tangent v))) (vertices m)) \<and>
           ibm = concat (map (\<lambda>i. le32 (nat i)) (indices m)) \<and>
           list_all vertex_conforms (vertices m) \<and>
           length vbm = 44 * length (vertices m) \<and> length ibm = 4 * length (indices m) \<and>
           (length (vertices m) = 2 \<and> length (indices m) = 3 \<longrightarrow>
              length vbm = 88 \<and> length ibm = 12)))
   \<and> (export sc = Inr f \<longrightarrow>
        (\<exists>pre recs. f = pre @ le32 (length (meshes sc)) @ concat recs \<and>
           list_all2 (\<lambda>m r. write_mesh m = Inr r) (meshes sc) recs))"
proof -
  have "\<exists>nb vbm ibm.
           write_str (mesh_name m) = Inr nb \<and>
           r = nb @ le32 (nat (material_index m)) @
               le32 (length (vertices m)) @ vbm @ le32 (length (indices m)) @ ibm \<and>
           vbm = concat (map (\<lambda>v. concat (map pack_f
                   (position v @ normal v @ texcoord v @ tangent v))) (vertices m)) \<and>
           ibm = concat (map (\<lambda>i. le32 (nat i)) (indices m)) \<and>
           list_all vertex_conforms (vertices m) \<and>
           length vbm = 44 * length (vertices m) \<and> length ibm = 4 * length (indices m) \<and>
           (length (vertices m) = 2 \<and> length (indices m) = 3 \<longrightarrow>
              length vbm = 88 \<and> length ibm = 12)"
    if w: "write_mesh m = Inr r"
  proof -
    from write_mesh_Inr [OF w] obtain nb vbm ibm where n: "write_str (mesh_name m) = Inr nb"
      and v: "write_vertex_block (vertices m) = Inr vbm"
      and i: "write_index_block (indices m) = Inr ibm"
      and r: "r = nb @ le32 (nat (material_index m)) @
               le32 (length (vertices m)) @ vbm @ le32 (length (indices m)) @ ibm"
      by blast
    have lv: "length vbm = 44 * length (vertices m)"
      by (rule length_write_vertex_block [OF v])
    have li: "length ibm = 4 * length (indices m)"
      by (rule length_write_index_block [OF i])
    have "length (vertices m) = 2 \<and> length (indices m) = 3 \<longrightarrow>
        length vbm = 88 \<and> length ibm = 12"
      using lv li by simp
    with n r lv li write_vertex_block_Inr [OF v] write_index_block_Inr [OF i]
    show ?thesis
      by blast
  qed
  then show ?thesis
    using write_vertex_Inr [of v b] length_write_vertex [of v b]
      length_write_vertex_block [of vs vb] length_write_index_block [of ix ib]
      export_Inr_meshes [of sc f]
    by auto
qed


lemma utf8_tri: "utf8_encode (pystr_of ''tri'') = Inr [0x74, 0x72, 0x69]"
  by (simp add: pystr_of_def utf8_encode_cp_def)

lemma write_vertex_block_two: "write_vertex_block [v_a, v_b] = Inr (v_a_bytes @ v_b_bytes)"
  by (simp add: write_vertex_block_def write_vertex_v_a write_vertex_v_b)

lemma write_index_block_three:
  "write_index_block [0, 1, 0] = Inr [0,0,0,0, 1,0,0,0, 0,0,0,0]"
  by (simp add: write_index_block_def pack_Is_def pack_I_def le32_def)

lemma write_mesh_two_vertex_mesh: "write_mesh two_vertex_mesh = Inr two_vertex_mesh_record"
  by (simp add: write_mesh_def two_vertex_mesh_def write_str_def utf8_tri pack_I_def
      write_vertex_block_two write_index_block_three two_vertex_mesh_record_def le32_def)

lemma export_two_vertex_scene: "export two_vertex_scene = Inr two_vertex_scene_file"
  by (simp add: export_def write_header_eq write_materials_def write_textures_def
      write_meshes_def write_material_Default write_mesh_two_vertex_mesh pack_I_def
      two_vertex_scene_def two_vertex_scene_file_def)

theorem vertex_and_index_sizes_witness:
  "write_vertex v_a = Inr v_a_bytes \<and> length v_a_bytes = 44
   \<and> write_vertex_block [v_a, v_b] = Inr (v_a_bytes @ v_b_bytes)
   \<and> length (v_a_bytes @ v_b_bytes) = 88
   \<and> write_index_block [0, 1, 0] = Inr [0,0,0,0, 1,0,0,0, 0,0,0,0]
   \<and> length [0,0,0,0, 1,0,0,0, 0,0,0,0 :: byte] = 12
   \<and> write_mesh two_vertex_mesh = Inr two_vertex_mesh_record
   \<and> length (vertices two_vertex_mesh) = 2 \<and> length (indices two_vertex_mesh) = 3
   \<and> export two_vertex_scene = Inr two_vertex_scene_file"
  using vertex_and_index_sizes [of v_a v_a_bytes "[v_a, v_b]" "v_a_bytes @ v_b_bytes"
        "[0, 1, 0]" "[0,0,0,0, 1,0,0,0, 0,0,0,0]" two_vertex_mesh two_vertex_mesh_record
        two_vertex_scene two_vertex_scene_file]
    write_vertex_v_a write_vertex_block_two write_index_block_three
    write_mesh_two_vertex_mesh export_two_vertex_scene
  by (simp add: two_vertex_mesh_def)

end
